theory Spec2Isabelle
  imports Complex_Main "HOL-Library.Sublist" "HOL-Library.Char_ord" "HOL-Library.List_Lexorder"
    "HOL-Library.Extended_Nat" "HOL-Library.Log_Nat"
begin

text \<open>
  The campus assistant of the student campus app backend: a rule-based responder that
  assigns one intent to a message and writes a reply from the data sent with it. The
  repository holds two handlers of \<^verbatim>\<open>POST /chat\<close>: the hardened one, with validation
  middleware, name query and per-subject attendance (the one the specification
  describes), and the first one, \<^verbatim>\<open>routes/chat.route.js\<close>. The sections below embed the
  hardened handler from its sanitised message on, then the part of the first handler that
  writes to the request body, and prove the claims of the specification about them.
\<close>

section \<open>Strings\<close>

text \<open>
  A JavaScript string is modelled as the \<^typ>\<open>string\<close> of its UTF-8 bytes: an ASCII
  character is one byte, a character outside ASCII a run of bytes above 127. No keyword of
  the assistant has a character outside ASCII, so a keyword occurs in the bytes where it
  occurs in the string.
\<close>

text \<open>\<^verbatim>\<open>s.startsWith(p)\<close>.\<close>

fun startsWith :: "string \<Rightarrow> string \<Rightarrow> bool" where
  "startsWith s [] = True"
| "startsWith [] (p # ps) = False"
| "startsWith (c # cs) (p # ps) = (c = p \<and> startsWith cs ps)"

text \<open>\<^verbatim>\<open>s.includes(p)\<close>: \<open>p\<close> occurs in \<open>s\<close> as a contiguous run of characters.\<close>

fun includesStr :: "string \<Rightarrow> string \<Rightarrow> bool" where
  "includesStr [] p = (p = [])"
| "includesStr (c # cs) p = (startsWith (c # cs) p \<or> includesStr cs p)"

text \<open>
  \<^verbatim>\<open>toLowerCase\<close>. The ASCII capitals are lowered. Two characters outside ASCII have a
  lower case with an ASCII letter: the Kelvin sign U+212A becomes \<^verbatim>\<open>k\<close>, and the dotted
  capital I U+0130 becomes \<^verbatim>\<open>i\<close> followed by the combining dot U+0307. Every other
  character outside ASCII has a lower case outside ASCII and is left as it is: the handler
  only searches the lowered text for ASCII keywords.
\<close>

definition lowerChar :: "char \<Rightarrow> char" where
  "lowerChar c =
     (let n = (of_char c :: nat) in if 65 \<le> n \<and> n \<le> 90 then char_of (n + 32) else c)"

definition kelvinSign :: string where
  "kelvinSign = [CHR 0xE2, CHR 0x84, CHR 0xAA]"

definition dottedCapitalI :: string where
  "dottedCapitalI = [CHR 0xC4, CHR 0xB0]"

definition combiningDotAbove :: string where
  "combiningDotAbove = [CHR 0xCC, CHR 0x87]"

fun toLowerCase :: "string \<Rightarrow> string" where
  "toLowerCase [] = []"
| "toLowerCase (c # cs) =
     (if startsWith (c # cs) kelvinSign then CHR ''k'' # toLowerCase (drop 2 cs)
      else if startsWith (c # cs) dottedCapitalI then
        CHR ''i'' # combiningDotAbove @ toLowerCase (drop 1 cs)
      else lowerChar c # toLowerCase cs)"

text \<open>
  \<^verbatim>\<open>trim\<close> strips the white space and the line terminators of ECMAScript from both ends:
  tab, LF, VT, FF, CR, space, the no-break space U+00A0, U+1680, U+2000 to U+200A, the
  line and paragraph separators U+2028 and U+2029, U+202F, U+205F, U+3000 and the byte
  order mark U+FEFF.
\<close>

definition whiteSpace :: "string list" where
  "whiteSpace =
     [[CHR 0x09], [CHR 0x0A], [CHR 0x0B], [CHR 0x0C], [CHR 0x0D], [CHR 0x20],
      [CHR 0xC2, CHR 0xA0],
      [CHR 0xE1, CHR 0x9A, CHR 0x80],
      [CHR 0xE2, CHR 0x80, CHR 0x80], [CHR 0xE2, CHR 0x80, CHR 0x81],
      [CHR 0xE2, CHR 0x80, CHR 0x82], [CHR 0xE2, CHR 0x80, CHR 0x83],
      [CHR 0xE2, CHR 0x80, CHR 0x84], [CHR 0xE2, CHR 0x80, CHR 0x85],
      [CHR 0xE2, CHR 0x80, CHR 0x86], [CHR 0xE2, CHR 0x80, CHR 0x87],
      [CHR 0xE2, CHR 0x80, CHR 0x88], [CHR 0xE2, CHR 0x80, CHR 0x89],
      [CHR 0xE2, CHR 0x80, CHR 0x8A],
      [CHR 0xE2, CHR 0x80, CHR 0xA8], [CHR 0xE2, CHR 0x80, CHR 0xA9],
      [CHR 0xE2, CHR 0x80, CHR 0xAF],
      [CHR 0xE2, CHR 0x81, CHR 0x9F],
      [CHR 0xE3, CHR 0x80, CHR 0x80],
      [CHR 0xEF, CHR 0xBB, CHR 0xBF]]"

text \<open>
  What is left of \<open>s\<close> once the characters of \<open>ws\<close> (each a non-empty run of bytes) are
  taken off its front.
\<close>

fun dropLeading :: "string list \<Rightarrow> string \<Rightarrow> string" where
  "dropLeading ws [] = []"
| "dropLeading ws (c # cs) =
     (case find (startsWith (c # cs)) ws of
        None \<Rightarrow> c # cs
      | Some w \<Rightarrow> dropLeading ws (drop (length w - 1) cs))"

definition trim :: "string \<Rightarrow> string" where
  "trim s = rev (dropLeading (map rev whiteSpace) (rev (dropLeading whiteSpace s)))"

section \<open>The intent classifier\<close>

datatype intent =
    GENERAL_QUERY
  | NAME_QUERY
  | EXPENSE_MONTHLY
  | EXPENSE_INSIGHTS
  | ATTENDANCE_INSIGHTS
  | ACADEMIC_INSIGHTS
  | ASSIGNMENT_PLANNING
  | CALENDAR_MANAGEMENT
  | TIMETABLE_ANALYSIS
  | GREETING
  | GRATITUDE
  | GUIDANCE
  | ERROR
  | VALIDATION_ERROR

text \<open>
  The conditions of the handler's \<^verbatim>\<open>if / else if\<close> chain (the hardened handler, the one
  with the validation middleware), one definition per condition, in the order of the chain.
\<close>

definition isNameQuery :: "string \<Rightarrow> bool" where
  "isNameQuery lowerMessage =
     (includesStr lowerMessage ''what is my name'' \<or>
      includesStr lowerMessage ''who am i'' \<or>
      includesStr lowerMessage ''do you know my name'' \<or>
      includesStr lowerMessage ''what's my name'' \<or>
      includesStr lowerMessage ''whats my name'')"

definition isExpenseMonthly :: "string \<Rightarrow> bool" where
  "isExpenseMonthly lowerMessage =
     (includesStr lowerMessage ''this month'' \<and>
      (includesStr lowerMessage ''spend'' \<or> includesStr lowerMessage ''expense''))"

definition isExpenseInsights :: "string \<Rightarrow> bool" where
  "isExpenseInsights lowerMessage =
     (includesStr lowerMessage ''expense'' \<or>
      includesStr lowerMessage ''spend'' \<or>
      includesStr lowerMessage ''spent'' \<or>
      includesStr lowerMessage ''money'' \<or>
      includesStr lowerMessage ''budget'' \<or>
      includesStr lowerMessage ''cost'' \<or>
      includesStr lowerMessage ''expensive'' \<or>
      includesStr lowerMessage ''saving'')"

definition isAttendance :: "string \<Rightarrow> bool" where
  "isAttendance lowerMessage =
     (includesStr lowerMessage ''attendance'' \<or>
      includesStr lowerMessage ''present'' \<or>
      includesStr lowerMessage ''absent'' \<or>
      includesStr lowerMessage ''percentage'')"

definition isAcademic :: "string \<Rightarrow> bool" where
  "isAcademic lowerMessage =
     (includesStr lowerMessage ''cgpa'' \<or>
      includesStr lowerMessage ''gpa'' \<or>
      includesStr lowerMessage ''grade'' \<or>
      includesStr lowerMessage ''sgpa'' \<or>
      includesStr lowerMessage ''semester'' \<or>
      includesStr lowerMessage ''marks'' \<or>
      includesStr lowerMessage ''performance'' \<or>
      includesStr lowerMessage ''result'' \<or>
      includesStr lowerMessage ''academic'' \<or>
      includesStr lowerMessage ''progress'' \<or>
      includesStr lowerMessage ''improvement'' \<or>
      includesStr lowerMessage ''trend'')"

definition isAssignment :: "string \<Rightarrow> bool" where
  "isAssignment lowerMessage =
     (includesStr lowerMessage ''assignment'' \<or>
      includesStr lowerMessage ''homework'' \<or>
      includesStr lowerMessage ''deadline'' \<or>
      includesStr lowerMessage ''due'' \<or>
      includesStr lowerMessage ''project'')"

definition isCalendar :: "string \<Rightarrow> bool" where
  "isCalendar lowerMessage =
     (includesStr lowerMessage ''calendar'' \<or>
      includesStr lowerMessage ''event'' \<or>
      includesStr lowerMessage ''exam'' \<or>
      includesStr lowerMessage ''holiday'' \<or>
      includesStr lowerMessage ''important date'' \<or>
      includesStr lowerMessage ''meeting'')"

definition isBusiestDay :: "string \<Rightarrow> bool" where
  "isBusiestDay lowerMessage =
     (includesStr lowerMessage ''busiest day'' \<or>
      includesStr lowerMessage ''most busy'' \<or>
      includesStr lowerMessage ''which day is busiest'' \<or>
      includesStr lowerMessage ''what is my busiest day'' \<or>
      includesStr lowerMessage ''when am i busiest'')"

definition isWorkload :: "string \<Rightarrow> bool" where
  "isWorkload lowerMessage =
     (includesStr lowerMessage ''busy'' \<or>
      includesStr lowerMessage ''packed'' \<or>
      includesStr lowerMessage ''workload'' \<or>
      includesStr lowerMessage ''work load'' \<or>
      includesStr lowerMessage ''how busy'' \<or>
      includesStr lowerMessage ''how packed'' \<or>
      includesStr lowerMessage ''am i busy'' \<or>
      includesStr lowerMessage ''am i too busy'' \<or>
      includesStr lowerMessage ''am i packed'' \<or>
      includesStr lowerMessage ''is my week busy'' \<or>
      includesStr lowerMessage ''is my week packed'' \<or>
      includesStr lowerMessage ''overall load'')"

definition isTimetable :: "string \<Rightarrow> bool" where
  "isTimetable lowerMessage =
     (includesStr lowerMessage ''class'' \<or>
      includesStr lowerMessage ''lecture'' \<or>
      includesStr lowerMessage ''timetable'' \<or>
      includesStr lowerMessage ''schedule'' \<or>
      includesStr lowerMessage ''tomorrow'' \<or>
      includesStr lowerMessage ''today'' \<or>
      includesStr lowerMessage ''monday'' \<or>
      includesStr lowerMessage ''tuesday'' \<or>
      includesStr lowerMessage ''wednesday'' \<or>
      includesStr lowerMessage ''thursday'' \<or>
      includesStr lowerMessage ''friday'' \<or>
      includesStr lowerMessage ''saturday'' \<or>
      includesStr lowerMessage ''sunday'' \<or>
      includesStr lowerMessage ''free day'' \<or>
      includesStr lowerMessage ''off day'' \<or>
      includesStr lowerMessage ''day off'' \<or>
      includesStr lowerMessage ''week'' \<or>
      includesStr lowerMessage ''weekly'' \<or>
      isWorkload lowerMessage \<or>
      isBusiestDay lowerMessage)"

definition isGreeting :: "string \<Rightarrow> string \<Rightarrow> bool" where
  "isGreeting lowerMessage sanitizedMessage =
     (includesStr lowerMessage ''hi'' \<or>
      includesStr lowerMessage ''hello'' \<or>
      includesStr lowerMessage ''hey'' \<or>
      trim sanitizedMessage = '''')"

definition isGratitude :: "string \<Rightarrow> bool" where
  "isGratitude lowerMessage =
     (includesStr lowerMessage ''thank'' \<or>
      includesStr lowerMessage ''thanks'' \<or>
      includesStr lowerMessage ''appreciate'')"

text \<open>The intent the chain assigns: the branch of the first condition that holds.\<close>

definition classify :: "string \<Rightarrow> string \<Rightarrow> intent" where
  "classify lowerMessage sanitizedMessage =
     (if isNameQuery lowerMessage then NAME_QUERY
      else if isExpenseMonthly lowerMessage then EXPENSE_MONTHLY
      else if isExpenseInsights lowerMessage then EXPENSE_INSIGHTS
      else if isAttendance lowerMessage then ATTENDANCE_INSIGHTS
      else if isAcademic lowerMessage then ACADEMIC_INSIGHTS
      else if isAssignment lowerMessage then ASSIGNMENT_PLANNING
      else if isCalendar lowerMessage then CALENDAR_MANAGEMENT
      else if isTimetable lowerMessage then TIMETABLE_ANALYSIS
      else if isGreeting lowerMessage sanitizedMessage then GREETING
      else if isGratitude lowerMessage then GRATITUDE
      else GUIDANCE)"

section \<open>Numbers\<close>

text \<open>
  A JavaScript number is a double, modelled by the rational it denotes; \<^verbatim>\<open>NaN\<close> and
  \<^verbatim>\<open>undefined\<close> are the \<open>None\<close> of an \<open>option\<close>. Comparisons of doubles are exact. A number
  written in decimal (in the request or in the source) and the exact result of an
  arithmetic operation are rounded to the nearest double, to the one with the even
  significand on a tie: \<open>roundDouble\<close>, with the 53-bit significand and the subnormal
  numbers of the binary64 format, for magnitudes below \<open>2\<^sup>1\<^sup>0\<^sup>2\<^sup>4\<close>. Counts are integers.
\<close>

text \<open>\<open>\<lfloor>log\<^sub>2 x\<rfloor>\<close> for a positive \<open>x\<close>, from the bit lengths of its numerator and denominator.\<close>

definition exponentOf :: "rat \<Rightarrow> int" where
  "exponentOf x =
     (let p = fst (quotient_of x); q = snd (quotient_of x); e = bitlen p - bitlen q
      in if 2 powi e \<le> x then e else e - 1)"

text \<open>The nearest integer, the even one on a tie.\<close>

definition roundHalfEven :: "rat \<Rightarrow> int" where
  "roundHalfEven q =
     (let f = \<lfloor>q\<rfloor>; r = q - of_int f in
      if r < 1 / 2 then f else if 1 / 2 < r then f + 1 else if even f then f else f + 1)"

text \<open>
  The nearest double: \<open>u\<close> is the distance between neighbouring doubles at the magnitude of
  \<open>x\<close>.
\<close>

definition roundDouble :: "rat \<Rightarrow> rat" where
  "roundDouble x =
     (if x = 0 then 0
      else
        (let u = 2 powi (max (exponentOf \<bar>x\<bar>) (- 1022) - 52)
         in sgn x * of_int (roundHalfEven (\<bar>x\<bar> / u)) * u))"

text \<open>A whole number of the request, read as a double.\<close>

definition roundCount :: "int \<Rightarrow> int" where
  "roundCount i = \<lfloor>roundDouble (of_int i)\<rfloor>"

section \<open>Values of the JavaScript runtime\<close>

text \<open>
  What one request reads from the runtime and the wall clock: the production flag, the
  instant \<^verbatim>\<open>now\<close> (milliseconds since the epoch, with its local week day, local hour and
  ISO rendering), the local midnight of today, the value \<^verbatim>\<open>Math.random()\<close> returns (every
  path through the handler draws at most once), the \<^verbatim>\<open>Date\<close> parser (\<open>None\<close> is an invalid
  date, whose time value is \<^verbatim>\<open>NaN\<close>), the rendering of a number that is not a whole
  number up to \<open>2\<^sup>5\<^sup>3\<close>, and the message of an exception.
\<close>

datatype jsError = TypeError

record Env =
  DEBUG :: bool
  nowMs :: int
  nowDay :: nat
  nowHours :: nat
  nowISO :: string
  todayMidnightMs :: int
  mathRandom :: rat
  parseDate :: "string \<Rightarrow> int option"
  toStringJS :: "rat \<Rightarrow> string"
  errorMessage :: "jsError \<Rightarrow> string"

fun digits :: "nat \<Rightarrow> string" where
  "digits n = (if n < 10 then [char_of (48 + n)] else digits (n div 10) @ [char_of (48 + n mod 10)])"

declare digits.simps [simp del]

definition showInt :: "int \<Rightarrow> string" where
  "showInt i = (if i < 0 then ''-'' @ digits (nat (- i)) else digits (nat i))"

text \<open>
  A number inside a template literal, \<^verbatim>\<open>`${x}`\<close>: a whole number up to \<open>2\<^sup>5\<^sup>3\<close> prints as its
  decimal digits; any other number prints as the shortest decimal that reads back as the
  same double, which the runtime supplies.
\<close>

definition numberToString :: "Env \<Rightarrow> rat \<Rightarrow> string" where
  "numberToString env r =
     (if r = of_int \<lfloor>r\<rfloor> \<and> \<bar>r\<bar> \<le> 2 ^ 53 then showInt \<lfloor>r\<rfloor> else toStringJS env r)"

definition intToString :: "Env \<Rightarrow> int \<Rightarrow> string" where
  "intToString env i = numberToString env (of_int i)"

text \<open>A field that may be missing inside a template literal: \<^verbatim>\<open>undefined\<close> is printed.\<close>

definition optNumberToString :: "Env \<Rightarrow> rat option \<Rightarrow> string" where
  "optNumberToString env x = (case x of None \<Rightarrow> ''undefined'' | Some r \<Rightarrow> numberToString env r)"

definition optIntToString :: "Env \<Rightarrow> int option \<Rightarrow> string" where
  "optIntToString env x = (case x of None \<Rightarrow> ''undefined'' | Some i \<Rightarrow> intToString env i)"

definition optStringToString :: "string option \<Rightarrow> string" where
  "optStringToString x = (case x of None \<Rightarrow> ''undefined'' | Some s \<Rightarrow> s)"

text \<open>
  \<^verbatim>\<open>x.toFixed(f)\<close> on a double \<open>x\<close>: the integer \<open>n\<close> for which \<open>n / 10\<^sup>f\<close> is closest to the
  value of \<open>\<bar>x\<bar>\<close>, the larger one on a tie, printed with \<open>f\<close> decimals behind the sign of
  \<open>x\<close>. The tie is decided on the double, not on the decimal it was written as: 8.575 is
  read as a double below 8.575 and printed as \<^verbatim>\<open>8.57\<close>.
\<close>

definition toFixed :: "Env \<Rightarrow> rat \<Rightarrow> nat \<Rightarrow> string" where
  "toFixed env x f =
     (let a = \<bar>x\<bar> in
      if a \<ge> 10 ^ 21 then numberToString env x
      else
        let n = nat \<lfloor>a * 10 ^ f + 1 / 2\<rfloor>;
            m = digits n;
            padded = (if length m \<le> f then replicate (f + 1 - length m) (CHR ''0'') @ m else m);
            k = length padded
        in (if x < 0 then ''-'' else []) @
           (if f = 0 then padded else take (k - f) padded @ ''.'' @ drop (k - f) padded))"

text \<open>Calling \<^verbatim>\<open>toFixed\<close> on \<^verbatim>\<open>undefined\<close> throws.\<close>

definition optToFixed :: "Env \<Rightarrow> rat option \<Rightarrow> nat \<Rightarrow> jsError + string" where
  "optToFixed env x f = (case x of None \<Rightarrow> Inl TypeError | Some r \<Rightarrow> Inr (toFixed env r f))"

text \<open>\<^verbatim>\<open>a || b\<close> on numbers that may be missing: \<open>0\<close> and \<^verbatim>\<open>undefined\<close> are falsy.\<close>

definition orNum :: "rat option \<Rightarrow> rat option \<Rightarrow> rat option" where
  "orNum a b = (case a of None \<Rightarrow> b | Some x \<Rightarrow> if x \<noteq> 0 then Some x else b)"

text \<open>\<^verbatim>\<open>a || b\<close> on strings that may be missing: the empty string and \<^verbatim>\<open>undefined\<close> are falsy.\<close>

definition orStr :: "string option \<Rightarrow> string option \<Rightarrow> string option" where
  "orStr a b = (case a of None \<Rightarrow> b | Some x \<Rightarrow> if x \<noteq> [] then Some x else b)"

definition truthyStr :: "string option \<Rightarrow> bool" where
  "truthyStr a = (case a of None \<Rightarrow> False | Some x \<Rightarrow> x \<noteq> [])"

text \<open>\<^verbatim>\<open>xs.join(sep)\<close>.\<close>

fun join :: "string \<Rightarrow> string list \<Rightarrow> string" where
  "join sep [] = []"
| "join sep [x] = x"
| "join sep (x # y # ys) = x @ sep @ join sep (y # ys)"

text \<open>The characters outside ASCII that the replies use, as their UTF-8 bytes.\<close>

definition emDash :: string where
  "emDash = [CHR 0xE2, CHR 0x80, CHR 0x94]"

definition rupee :: string where
  "rupee = [CHR 0xE2, CHR 0x82, CHR 0xB9]"

definition bullet :: string where
  "bullet = [CHR 0xE2, CHR 0x80, CHR 0xA2]"

definition arrow :: string where
  "arrow = [CHR 0xE2, CHR 0x86, CHR 0x92]"

definition chartUp :: string where
  "chartUp = [CHR 0xF0, CHR 0x9F, CHR 0x93, CHR 0x88]"

definition chartDown :: string where
  "chartDown = [CHR 0xF0, CHR 0x9F, CHR 0x93, CHR 0x89]"

definition arrowRight :: string where
  "arrowRight = [CHR 0xE2, CHR 0x9E, CHR 0xA1, CHR 0xEF, CHR 0xB8, CHR 0x8F]"

definition warningSign :: string where
  "warningSign = [CHR 0xE2, CHR 0x9A, CHR 0xA0, CHR 0xEF, CHR 0xB8, CHR 0x8F]"

definition checkMark :: string where
  "checkMark = [CHR 0xE2, CHR 0x9C, CHR 0x93]"

section \<open>Helper functions of the handler\<close>

definition DAYS :: "string list" where
  "DAYS = [''Monday'', ''Tuesday'', ''Wednesday'', ''Thursday'', ''Friday'', ''Saturday'', ''Sunday'']"

definition getDayName :: "Env \<Rightarrow> nat \<Rightarrow> string" where
  "getDayName env index =
     (if index < length DAYS then DAYS ! index else ''Day '' @ intToString env (int index + 1))"

text \<open>\<^verbatim>\<open>lines.filter(Boolean).join('\n')\<close>; a \<^verbatim>\<open>null\<close> entry is written as the empty string.\<close>

definition formatReply :: "string list \<Rightarrow> string" where
  "formatReply lines = join [CHR 0x0A] (filter (\<lambda>l. l \<noteq> []) lines)"

text \<open>\<^verbatim>\<open>paragraph(lines)\<close>: the same with a space.\<close>

definition paragraphStr :: "string list \<Rightarrow> string" where
  "paragraphStr lines = join '' '' (filter (\<lambda>l. l \<noteq> []) lines)"

definition addressMaybe :: "Env \<Rightarrow> string \<Rightarrow> string \<Rightarrow> string" where
  "addressMaybe env text userName =
     (let useName = (mathRandom env < roundDouble 0.35) in
      if \<not> useName \<or> userName = [] then text else userName @ '', '' @ text)"

section \<open>The request bundle\<close>

text \<open>
  The body of a request that has passed validation, with the types of the data model and
  its numbers as the request writes them. A field that
  the body may leave out is an \<open>option\<close>, \<open>None\<close> standing for \<^verbatim>\<open>undefined\<close>. An object is
  a record of the fields the handler reads (it carries no other key); an object used as a
  mapping is the list of its entries, in the order \<^verbatim>\<open>Object.entries\<close> gives them, with
  distinct keys. Where two objects share a key, or a key is the name of a constant of the
  library, the field is renamed: \<open>semName\<close> is the key \<^verbatim>\<open>name\<close> of a semester,
  \<open>subPercentage\<close> the key \<^verbatim>\<open>percentage\<close> of a subject, \<open>totalSpent\<close> the key \<^verbatim>\<open>total\<close> of the
  expenses.
\<close>

record User =
  firstName :: "string option"

record ClassEntry =
  name :: "string option"
  subject :: "string option"
  startTime :: "string option"
  endTime :: "string option"
  time :: "string option"

record SemesterRecord =
  sgpa :: "rat option"
  gpa :: "rat option"
  score :: "rat option"
  semester :: "string option"
  semName :: "string option"

record CalendarMark =
  date :: "string option"
  categoryName :: "string option"

record SubjectAttendance =
  attended :: "int option"
  held :: "int option"
  subPercentage :: "rat option"

record AttendanceSummary =
  totalHeld :: "int option"
  totalAttended :: "int option"
  percentage :: "rat option"
  subjects :: "(string \<times> SubjectAttendance) list option"

record ExpenseSummary =
  totalSpent :: "rat option"
  thisMonth :: "rat option"
  categories :: "(string \<times> rat) list option"

text \<open>
  The bundle, over the type of a calendar mark: the hardened handler reads a mark as an
  object of the data model.
\<close>

record 'mark Bundle =
  message :: string
  user :: "User option"
  assignments :: "(string \<times> int) list option"
  timetable :: "(string \<times> ClassEntry list) list option"
  todayIndex :: "nat option"
  cgpa :: "SemesterRecord list option"
  calendarMarks :: "'mark list option"
  attendance :: "AttendanceSummary option"
  expenses :: "ExpenseSummary option"

type_synonym RequestBundle = "CalendarMark Bundle"

text \<open>
  The body as \<^verbatim>\<open>express.json()\<close> hands it to the handler: every number written in the
  request is read as the nearest double.
\<close>

definition jsonSemester :: "SemesterRecord \<Rightarrow> SemesterRecord" where
  "jsonSemester sem =
     sem\<lparr>sgpa := map_option roundDouble (sgpa sem),
         gpa := map_option roundDouble (gpa sem),
         score := map_option roundDouble (score sem)\<rparr>"

definition jsonSubject :: "SubjectAttendance \<Rightarrow> SubjectAttendance" where
  "jsonSubject data =
     data\<lparr>attended := map_option roundCount (attended data),
          held := map_option roundCount (held data),
          subPercentage := map_option roundDouble (subPercentage data)\<rparr>"

definition jsonAttendance :: "AttendanceSummary \<Rightarrow> AttendanceSummary" where
  "jsonAttendance att =
     att\<lparr>totalHeld := map_option roundCount (totalHeld att),
         totalAttended := map_option roundCount (totalAttended att),
         percentage := map_option roundDouble (percentage att),
         subjects := map_option (map (\<lambda>entry. (fst entry, jsonSubject (snd entry)))) (subjects att)\<rparr>"

definition jsonExpenses :: "ExpenseSummary \<Rightarrow> ExpenseSummary" where
  "jsonExpenses exps =
     exps\<lparr>totalSpent := map_option roundDouble (totalSpent exps),
          thisMonth := map_option roundDouble (thisMonth exps),
          categories := map_option (map (\<lambda>entry. (fst entry, roundDouble (snd entry)))) (categories exps)\<rparr>"

definition jsonBody :: "RequestBundle \<Rightarrow> RequestBundle" where
  "jsonBody req =
     req\<lparr>assignments := map_option (map (\<lambda>entry. (fst entry, roundCount (snd entry)))) (assignments req),
         cgpa := map_option (map jsonSemester) (cgpa req),
         attendance := map_option jsonAttendance (attendance req),
         expenses := map_option jsonExpenses (expenses req)\<rparr>"

text \<open>
  The destructuring of the body with its defaults:
  \<^verbatim>\<open>user = { firstName: 'there' }, assignments = {}, timetable = {}, cgpa = [],
  calendarMarks = [], attendance = {}, expenses = {}\<close>.
\<close>

definition userOf :: "RequestBundle \<Rightarrow> User" where
  "userOf req = (case user req of None \<Rightarrow> \<lparr>firstName = Some ''there''\<rparr> | Some u \<Rightarrow> u)"

definition assignmentsOf :: "RequestBundle \<Rightarrow> (string \<times> int) list" where
  "assignmentsOf req = (case assignments req of None \<Rightarrow> [] | Some a \<Rightarrow> a)"

definition timetableOf :: "RequestBundle \<Rightarrow> (string \<times> ClassEntry list) list" where
  "timetableOf req = (case timetable req of None \<Rightarrow> [] | Some t \<Rightarrow> t)"

definition cgpaOf :: "RequestBundle \<Rightarrow> SemesterRecord list" where
  "cgpaOf req = (case cgpa req of None \<Rightarrow> [] | Some c \<Rightarrow> c)"

definition calendarMarksOf :: "RequestBundle \<Rightarrow> CalendarMark list" where
  "calendarMarksOf req = (case calendarMarks req of None \<Rightarrow> [] | Some c \<Rightarrow> c)"

definition attendanceOf :: "RequestBundle \<Rightarrow> AttendanceSummary" where
  "attendanceOf req =
     (case attendance req of
        None \<Rightarrow> \<lparr>totalHeld = None, totalAttended = None, percentage = None, subjects = None\<rparr>
      | Some a \<Rightarrow> a)"

definition expensesOf :: "RequestBundle \<Rightarrow> ExpenseSummary" where
  "expensesOf req =
     (case expenses req of
        None \<Rightarrow> \<lparr>totalSpent = None, thisMonth = None, categories = None\<rparr>
      | Some e \<Rightarrow> e)"

text \<open>\<^verbatim>\<open>const userName = user.firstName || 'there'\<close>.\<close>

definition userNameOf :: "RequestBundle \<Rightarrow> string" where
  "userNameOf req = (case orStr (firstName (userOf req)) (Some ''there'') of Some n \<Rightarrow> n | None \<Rightarrow> ''there'')"

text \<open>\<^verbatim>\<open>Object.keys(expenses).length\<close>, over the keys of the data model.\<close>

definition expenseKeys :: "ExpenseSummary \<Rightarrow> nat" where
  "expenseKeys e =
     (if totalSpent e = None then 0 else 1) + (if thisMonth e = None then 0 else 1) +
     (if categories e = None then 0 else 1)"

text \<open>\<^verbatim>\<open>x > 0\<close> on a number that may be missing (\<^verbatim>\<open>undefined > 0\<close> is false).\<close>

definition positiveInt :: "int option \<Rightarrow> bool" where
  "positiveInt x = (case x of None \<Rightarrow> False | Some i \<Rightarrow> i > 0)"

definition positiveNum :: "rat option \<Rightarrow> bool" where
  "positiveNum x = (case x of None \<Rightarrow> False | Some r \<Rightarrow> r > 0)"

section \<open>Time utilities and the weekly pattern\<close>

text \<open>\<^verbatim>\<open>const normalizedTodayIndex = jsTodayIndex === 0 ? 6 : jsTodayIndex - 1\<close> (Monday is 0).\<close>

definition normalizedTodayIndex :: "Env \<Rightarrow> nat" where
  "normalizedTodayIndex env = (if nowDay env = 0 then 6 else nowDay env - 1)"

text \<open>
  \<^verbatim>\<open>Math.ceil((new Date(date) - now) / (1000 * 60 * 60 * 24))\<close>; \<open>None\<close> is \<^verbatim>\<open>NaN\<close>, the
  result for a date that does not parse. A time value is a whole number of milliseconds,
  at most \<open>8.64 * 10\<^sup>1\<^sup>5\<close> in magnitude, so the difference to \<^verbatim>\<open>now\<close> is exact. Its
  quotient by 86400000 is below \<open>2\<^sup>2\<^sup>7\<close>, where the division is rounded by at most \<open>2\<^sup>-\<^sup>2\<^sup>7\<close>; a
  quotient that is not a whole number is at least 1 / 86400000 away from one, which is
  more. So the ceiling of the double quotient is the ceiling of the exact one.
\<close>

definition msPerDay :: int where
  "msPerDay = 1000 * 60 * 60 * 24"

definition daysBetween :: "int \<Rightarrow> int \<Rightarrow> int" where
  "daysBetween now due = \<lceil>(of_int (due - now) :: rat) / of_int msPerDay\<rceil>"

definition daysUntil :: "Env \<Rightarrow> string \<Rightarrow> int option" where
  "daysUntil env d = map_option (daysBetween (nowMs env)) (parseDate env d)"

definition daysToString :: "Env \<Rightarrow> int option \<Rightarrow> string" where
  "daysToString env d = (case d of None \<Rightarrow> ''NaN'' | Some n \<Rightarrow> intToString env n)"

text \<open>
  \<^verbatim>\<open>getFutureDates(items)\<close>: the items whose date parses and is not before today's local
  midnight, in a new array, sorted by date (the sort is stable).
\<close>

definition markTime :: "Env \<Rightarrow> CalendarMark \<Rightarrow> int option" where
  "markTime env item = (if truthyStr (date item) then parseDate env (the (date item)) else None)"

definition getFutureDates :: "Env \<Rightarrow> CalendarMark list \<Rightarrow> CalendarMark list" where
  "getFutureDates env items =
     sort_key (\<lambda>item. the (markTime env item))
       (filter (\<lambda>item. case markTime env item of None \<Rightarrow> False | Some d \<Rightarrow> d \<ge> todayMidnightMs env) items)"

text \<open>\<^verbatim>\<open>s.split(sep)\<close> for a separator of one character.\<close>

fun splitOn :: "char \<Rightarrow> string \<Rightarrow> string list" where
  "splitOn sep [] = [[]]"
| "splitOn sep (c # cs) =
     (if c = sep then [] # splitOn sep cs
      else (case splitOn sep cs of [] \<Rightarrow> [[c]] | p # ps \<Rightarrow> (c # p) # ps))"

definition normalizeClassTime :: "ClassEntry \<Rightarrow> ClassEntry" where
  "normalizeClassTime cls =
     (if truthyStr (startTime cls) \<and> truthyStr (endTime cls) then cls
      else if truthyStr (time cls) \<and> includesStr (the (time cls)) ''-'' then
        (let pieces = map trim (splitOn (CHR ''-'') (the (time cls)))
         in cls\<lparr>startTime := Some (pieces ! 0), endTime := Some (pieces ! 1)\<rparr>)
      else cls)"

text \<open>\<^verbatim>\<open>timetable[`day_${dayIndex}`] || []\<close>, each class normalised.\<close>

definition getClassesForDay :: "Env \<Rightarrow> (string \<times> ClassEntry list) list \<Rightarrow> nat \<Rightarrow> ClassEntry list" where
  "getClassesForDay env tt dayIndex =
     (let classes = (case map_of tt (''day_'' @ intToString env (int dayIndex)) of
                       None \<Rightarrow> [] | Some cs \<Rightarrow> cs)
      in map normalizeClassTime classes)"

text \<open>
  \<^verbatim>\<open>analyzeWeeklyPattern\<close>. A day is \<open>None\<close> for \<^verbatim>\<open>null\<close>; a count is an extended
  natural number, since the count of the lightest day starts at \<^verbatim>\<open>Infinity\<close>.
\<close>

record DayCount =
  day :: "nat option"
  count :: enat

record Analysis =
  busiestDay :: DayCount
  lightestDay :: DayCount
  totalClasses :: nat
  daysWithClasses :: nat

definition initialAnalysis :: Analysis where
  "initialAnalysis =
     \<lparr>busiestDay = \<lparr>day = None, count = 0\<rparr>,
      lightestDay = \<lparr>day = None, count = \<infinity>\<rparr>,
      totalClasses = 0,
      daysWithClasses = 0\<rparr>"

text \<open>The body of the loop, for day \<open>i\<close>; \<open>classCount i\<close> is \<^verbatim>\<open>getClassesForDay(i).length\<close>.\<close>

definition weeklyStep :: "(nat \<Rightarrow> nat) \<Rightarrow> Analysis \<Rightarrow> nat \<Rightarrow> Analysis" where
  "weeklyStep classCount analysis i =
     (let c = classCount i;
          a1 = analysis\<lparr>totalClasses := totalClasses analysis + c\<rparr>;
          a2 = (if c > 0 then a1\<lparr>daysWithClasses := daysWithClasses a1 + 1\<rparr> else a1);
          a3 = (if enat c > count (busiestDay a2)
                then a2\<lparr>busiestDay := \<lparr>day = Some i, count = enat c\<rparr>\<rparr> else a2);
          a4 = (if enat c < count (lightestDay a3) \<and> c > 0
                then a3\<lparr>lightestDay := \<lparr>day = Some i, count = enat c\<rparr>\<rparr> else a3)
      in a4)"

text \<open>\<^verbatim>\<open>for (let i = 0; i < n; i++)\<close>; the handler runs it with \<open>n = 7\<close>.\<close>

definition weeklyLoop :: "(nat \<Rightarrow> nat) \<Rightarrow> nat \<Rightarrow> Analysis" where
  "weeklyLoop classCount n = foldl (weeklyStep classCount) initialAnalysis [0..<n]"

definition finishAnalysis :: "Analysis \<Rightarrow> Analysis" where
  "finishAnalysis analysis =
     (if count (lightestDay analysis) = \<infinity>
      then analysis\<lparr>lightestDay := \<lparr>day = None, count = 0\<rparr>\<rparr>
      else analysis)"

definition classCountOf :: "Env \<Rightarrow> (string \<times> ClassEntry list) list \<Rightarrow> nat \<Rightarrow> nat" where
  "classCountOf env tt i = length (getClassesForDay env tt i)"

definition analyzeWeeklyPattern :: "Env \<Rightarrow> (string \<times> ClassEntry list) list \<Rightarrow> Analysis" where
  "analyzeWeeklyPattern env tt = finishAnalysis (weeklyLoop (classCountOf env tt) 7)"

section \<open>The branches of the handler\<close>

text \<open>
  A branch either sets \<^verbatim>\<open>reply\<close> and falls through to the response envelope at the end of
  the handler, or returns early with \<^verbatim>\<open>res.json({ intent, reply })\<close>, or throws.
\<close>

datatype outcome = Reply string | Early string

definition plural :: "int \<Rightarrow> string" where
  "plural n = (if n > 1 then ''s'' else [])"

subsection \<open>Name and expenses\<close>

definition nameQuery :: "string \<Rightarrow> outcome" where
  "nameQuery userName = Reply (''Your name is '' @ userName @ ''. How can I help you today?'')"

definition expenseMonthly :: "Env \<Rightarrow> ExpenseSummary \<Rightarrow> string \<Rightarrow> outcome" where
  "expenseMonthly env exps userName =
     (case thisMonth exps of
        None \<Rightarrow> Reply (addressMaybe env ''I don't have any expense records for this month yet.'' userName)
      | Some m \<Rightarrow>
          (let spending = toFixed env m 2 in
           if m > 10000 then
             Reply (paragraphStr
               [''You've spent '' @ rupee @ spending @ '' this month, which is on the higher side.'',
                ''Might be worth reviewing where the money's going '' @ emDash @
                '' especially discretionary spending.''])
           else if m > 5000 then
             Reply (paragraphStr
               [''So far this month, you've spent '' @ rupee @ spending @ ''.'',
                ''That's within a moderate range '' @ emDash @ '' nothing alarming.''])
           else
             Reply (paragraphStr
               [''Your spending this month is at '' @ rupee @ spending @ ''.'',
                ''Looks like you're keeping things under control.''])))"

text \<open>\<^verbatim>\<open>x || 0\<close> on a number that may be missing.\<close>

definition numOrZero :: "rat option \<Rightarrow> rat" where
  "numOrZero x = (case x of None \<Rightarrow> 0 | Some r \<Rightarrow> r)"

definition intOrZero :: "int option \<Rightarrow> int" where
  "intOrZero x = (case x of None \<Rightarrow> 0 | Some i \<Rightarrow> i)"

definition categoryLine :: "Env \<Rightarrow> rat \<Rightarrow> string \<times> rat \<Rightarrow> string" where
  "categoryLine env tot entry =
     (let cat = fst entry; amt = snd entry;
          pct = (if tot > 0 then toFixed env (roundDouble (roundDouble (amt / tot) * 100)) 1 else ''0'')
      in bullet @ '' '' @ cat @ '': '' @ rupee @ toFixed env amt 2 @ '' ('' @ pct @ ''% of total)'')"

definition expenseInsights :: "Env \<Rightarrow> ExpenseSummary \<Rightarrow> string \<Rightarrow> outcome" where
  "expenseInsights env exps userName =
     (if expenseKeys exps = 0 then
        Reply (addressMaybe env
          ''I don't have any expense records yet. Start tracking your spending and I can help you manage your budget.''
          userName)
      else
        (let tot = numOrZero (totalSpent exps);
             month = numOrZero (thisMonth exps);
             cats = (case categories exps of None \<Rightarrow> [] | Some cs \<Rightarrow> cs);
             parts1 = [''Overall, you've spent '' @ rupee @ toFixed env tot 2 @
                       '' across all time, with '' @ rupee @ toFixed env month 2 @
                       '' so far this month.''];
             parts2 = (if month > 10000 then
                         [''This month's spending is a bit elevated '' @ emDash @
                          '' worth keeping an eye on.'']
                       else if month > 5000 then [''Monthly spending is within a reasonable range.'']
                       else if month > 0 then [''You're spending at a comfortable pace right now.'']
                       else []);
             sortedCategories = take 2 (sort_key (\<lambda>e. - snd e) cats);
             parts3 = (if length cats > 0 \<and> length sortedCategories > 0 then
                         ''Your main spending areas:'' # map (categoryLine env tot) sortedCategories
                       else [])
         in Reply (addressMaybe env (join '' '' (parts1 @ parts2 @ parts3)) userName)))"

subsection \<open>Attendance\<close>

definition isPerSubject :: "string \<Rightarrow> bool" where
  "isPerSubject lowerMessage =
     (includesStr lowerMessage ''per subject'' \<or>
      includesStr lowerMessage ''by subject'' \<or>
      includesStr lowerMessage ''each subject'' \<or>
      includesStr lowerMessage ''subject wise'' \<or>
      includesStr lowerMessage ''subject-wise'' \<or>
      includesStr lowerMessage ''subject breakdown'' \<or>
      includesStr lowerMessage ''breakdown by subject'')"

text \<open>
  The test of a regular expression \<^verbatim>\<open>/a.*b/\<close>: \<open>a\<close>, then any characters but line
  terminators (LF, CR, U+2028, U+2029), then \<open>b\<close>.
\<close>

definition lineTerminators :: "string list" where
  "lineTerminators =
     [[CHR 0x0A], [CHR 0x0D], [CHR 0xE2, CHR 0x80, CHR 0xA8], [CHR 0xE2, CHR 0x80, CHR 0xA9]]"

definition atLineTerminator :: "string \<Rightarrow> bool" where
  "atLineTerminator s = (find (startsWith s) lineTerminators \<noteq> None)"

fun laterOnLine :: "string \<Rightarrow> string \<Rightarrow> bool" where
  "laterOnLine [] b = (b = [])"
| "laterOnLine (c # cs) b =
     (startsWith (c # cs) b \<or> (\<not> atLineTerminator (c # cs) \<and> laterOnLine cs b))"

fun testThen :: "string \<Rightarrow> string \<Rightarrow> string \<Rightarrow> bool" where
  "testThen a b [] = (a = [] \<and> b = [])"
| "testThen a b (c # cs) =
     ((startsWith (c # cs) a \<and> laterOnLine (drop (length a) (c # cs)) b) \<or> testThen a b cs)"

definition isWhichSubject :: "string \<Rightarrow> bool" where
  "isWhichSubject lowerMessage =
     (includesStr lowerMessage ''which subject'' \<or>
      includesStr lowerMessage ''what subject'' \<or>
      (testThen ''subject'' ''low'' lowerMessage \<or> testThen ''low'' ''subject'' lowerMessage) \<or>
      (testThen ''subject'' ''below'' lowerMessage \<or> testThen ''below'' ''subject'' lowerMessage))"

text \<open>\<^verbatim>\<open>x < c\<close> and \<^verbatim>\<open>x >= c\<close> on a number that may be missing: both are false on \<^verbatim>\<open>undefined\<close>.\<close>

definition ltNum :: "rat option \<Rightarrow> rat \<Rightarrow> bool" where
  "ltNum x c = (case x of None \<Rightarrow> False | Some r \<Rightarrow> r < c)"

text \<open>
  \<^verbatim>\<open>Math.max(0, Math.ceil(held * 0.75) - attended)\<close>; \<open>None\<close> is \<^verbatim>\<open>NaN\<close>, the result when
  a count is missing. The product and the difference are those of doubles; 0.75 is a
  double.
\<close>

definition neededFor :: "int \<Rightarrow> int \<Rightarrow> int" where
  "neededFor h a = max 0 (roundCount (\<lceil>roundDouble (of_int h * 0.75)\<rceil> - a))"

definition neededClasses :: "int option \<Rightarrow> int option \<Rightarrow> int option" where
  "neededClasses h a =
     (case h of None \<Rightarrow> None
      | Some hv \<Rightarrow> (case a of None \<Rightarrow> None | Some av \<Rightarrow> Some (neededFor hv av)))"

definition subjectLine :: "Env \<Rightarrow> string \<times> SubjectAttendance \<Rightarrow> string" where
  "subjectLine env entry =
     (let subjectName = fst entry; data = snd entry;
          subPercent = numOrZero (subPercentage data);
          subAttended = intOrZero (attended data);
          subHeld = intOrZero (held data);
          indicator = (if subPercent < 75 then warningSign
                       else if subPercent \<ge> 85 then checkMark else [])
      in indicator @ '' '' @ subjectName @ '': '' @ numberToString env subPercent @ ''% ('' @
         intToString env subAttended @ ''/'' @ intToString env subHeld @ '')'')"

definition perSubjectReply :: "Env \<Rightarrow> AttendanceSummary \<Rightarrow> string \<Rightarrow> string" where
  "perSubjectReply env att userName =
     (let subjectEntries = (case subjects att of None \<Rightarrow> [] | Some s \<Rightarrow> s) in
      if length subjectEntries = 0 then
        addressMaybe env ''No subject-wise attendance data available.'' userName
      else
        (let sortedSubjects = sort_key (\<lambda>e. numOrZero (subPercentage (snd e))) subjectEntries;
             lines = [''Here's your attendance by subject:''] @
                     map (subjectLine env) sortedSubjects @
                     [[CHR 0x0A] @ ''Overall: '' @ optNumberToString env (percentage att) @ ''% ('' @
                      optIntToString env (totalAttended att) @ ''/'' @
                      optIntToString env (totalHeld att) @ '')'']
         in formatReply lines))"

text \<open>
  The scan for the subject with the lowest percentage: the accumulator is
  \<^verbatim>\<open>(lowestSubject, lowestPercent)\<close>, starting at \<^verbatim>\<open>(null, 101)\<close>.
\<close>

definition lowestStep :: "string option \<times> rat \<Rightarrow> string \<times> SubjectAttendance \<Rightarrow> string option \<times> rat" where
  "lowestStep acc entry =
     (let percent = numOrZero (subPercentage (snd entry)) in
      if percent < snd acc \<and> positiveInt (held (snd entry)) then (Some (fst entry), percent) else acc)"

definition whichSubjectReply :: "Env \<Rightarrow> AttendanceSummary \<Rightarrow> string \<Rightarrow> string" where
  "whichSubjectReply env att userName =
     (let subs = (case subjects att of None \<Rightarrow> [] | Some s \<Rightarrow> s) in
      if length subs = 0 then addressMaybe env ''No subject-wise data available.'' userName
      else
        (let lowest = foldl lowestStep (None, 101) subs;
             lowestSubject = fst lowest;
             lowestPercent = snd lowest
         in if truthyStr lowestSubject \<and> lowestPercent < 75 then
              (case map_of subs (the lowestSubject) of
                 None \<Rightarrow> addressMaybe env ''All your subjects are above 75% attendance.'' userName
               | Some data \<Rightarrow>
                   (let needed = neededClasses (held data) (attended data) in
                    addressMaybe env
                      (''Your lowest attendance is in '' @ the lowestSubject @ '' at '' @
                       numberToString env lowestPercent @ ''% ('' @
                       optIntToString env (attended data) @ ''/'' @ optIntToString env (held data) @
                       ''). You need to attend '' @
                       (case needed of None \<Rightarrow> ''NaN'' | Some n \<Rightarrow> intToString env n) @
                       '' more classes to reach 75%.'')
                      userName))
            else if truthyStr lowestSubject then
              addressMaybe env
                (''Your lowest attendance is in '' @ the lowestSubject @ '' at '' @
                 numberToString env lowestPercent @ ''%, which is still above 75%.'')
                userName
            else addressMaybe env ''All your subjects are above 75% attendance.'' userName))"

text \<open>The sentences of the overall attendance reply, in the order they are pushed.\<close>

definition belowThreshold :: string where
  "belowThreshold = ''This is below the 75% threshold '' @ emDash @ '' something to be mindful of.''"

definition neededSentence :: "Env \<Rightarrow> int \<Rightarrow> string" where
  "neededSentence env needed =
     ''You'd need to attend '' @ intToString env needed @ '' more classes to reach 75%.''"

definition breakdownHint :: string where
  "breakdownHint = ''Want to see the breakdown by subject? Just ask.''"

definition acceptableTone :: string where
  "acceptableTone = ''It's acceptable, though there's room to improve.''"

definition goodTone :: string where
  "goodTone = ''You're maintaining good attendance '' @ emDash @ '' that's solid.''"

definition attendanceSummaryLine :: "Env \<Rightarrow> AttendanceSummary \<Rightarrow> string" where
  "attendanceSummaryLine env att =
     ''Your attendance is at '' @ optNumberToString env (percentage att) @ ''% ('' @
     optIntToString env (totalAttended att) @ '' out of '' @
     optIntToString env (totalHeld att) @ '' classes).''"

definition overallParts :: "Env \<Rightarrow> AttendanceSummary \<Rightarrow> string list" where
  "overallParts env att =
     [attendanceSummaryLine env att] @
     (if ltNum (percentage att) 75 then
        [belowThreshold] @
        (case neededClasses (totalHeld att) (totalAttended att) of
           None \<Rightarrow> []
         | Some needed \<Rightarrow> if needed > 0 then [neededSentence env needed] else []) @
        (if (case subjects att of None \<Rightarrow> False | Some s \<Rightarrow> length s > 0) then [breakdownHint] else [])
      else if ltNum (percentage att) 85 then [acceptableTone]
      else [goodTone])"

definition overallReply :: "Env \<Rightarrow> AttendanceSummary \<Rightarrow> string \<Rightarrow> string" where
  "overallReply env att userName = addressMaybe env (join '' '' (overallParts env att)) userName"

text \<open>
  The attendance branch. The guard is \<^verbatim>\<open>!attendance || attendance.totalHeld === 0\<close>; the
  destructuring default has made \<^verbatim>\<open>attendance\<close> an object, so the first disjunct is false.
\<close>

definition noAttendanceReply :: string where
  "noAttendanceReply = ''No attendance records yet. Once classes start, I can help you track it.''"

definition attendanceInsights :: "Env \<Rightarrow> string \<Rightarrow> AttendanceSummary \<Rightarrow> string \<Rightarrow> outcome" where
  "attendanceInsights env lowerMessage att userName =
     (if totalHeld att = Some 0 then Early (addressMaybe env noAttendanceReply userName)
      else if isPerSubject lowerMessage then Reply (perSubjectReply env att userName)
      else if isWhichSubject lowerMessage then Reply (whichSubjectReply env att userName)
      else Reply (overallReply env att userName))"

subsection \<open>Academic performance\<close>

text \<open>\<^verbatim>\<open>sem.sgpa || sem.gpa || sem.score\<close>, the expression every grade computation uses.\<close>

definition scoreOf :: "SemesterRecord \<Rightarrow> rat option" where
  "scoreOf sem = orNum (orNum (sgpa sem) (gpa sem)) (score sem)"

text \<open>\<^verbatim>\<open>sem.semester || sem.name || `Semester ${n}`\<close>.\<close>

definition semesterNameOf :: "Env \<Rightarrow> SemesterRecord \<Rightarrow> nat \<Rightarrow> string" where
  "semesterNameOf env sem n =
     (case orStr (semester sem) (semName sem) of
        Some s \<Rightarrow> s
      | None \<Rightarrow> ''Semester '' @ intToString env (int n))"

definition isShowAll :: "string \<Rightarrow> bool" where
  "isShowAll lowerMessage =
     (includesStr lowerMessage ''all'' \<or>
      includesStr lowerMessage ''semester wise'' \<or>
      includesStr lowerMessage ''semester-wise'' \<or>
      includesStr lowerMessage ''each semester'' \<or>
      includesStr lowerMessage ''breakdown'' \<or>
      includesStr lowerMessage ''list'' \<or>
      includesStr lowerMessage ''show my grades'' \<or>
      includesStr lowerMessage ''show grades'')"

definition isTrendQuery :: "string \<Rightarrow> bool" where
  "isTrendQuery lowerMessage =
     (includesStr lowerMessage ''trend'' \<or>
      includesStr lowerMessage ''progress'' \<or>
      includesStr lowerMessage ''improvement'' \<or>
      includesStr lowerMessage ''change'')"

text \<open>The first error of a sequence of evaluations, or all their values.\<close>

fun sequenceE :: "(jsError + 'a) list \<Rightarrow> jsError + 'a list" where
  "sequenceE [] = Inr []"
| "sequenceE (x # xs) =
     (case x of
        Inl e \<Rightarrow> Inl e
      | Inr v \<Rightarrow> (case sequenceE xs of Inl e \<Rightarrow> Inl e | Inr vs \<Rightarrow> Inr (v # vs)))"

text \<open>
  \<^verbatim>\<open>cgpa.reduce((sum, sem) => sum + (sem.sgpa || sem.gpa || sem.score), 0)\<close>; \<open>None\<close> is
  \<^verbatim>\<open>NaN\<close>, the sum once a score is \<^verbatim>\<open>undefined\<close>.
\<close>

definition addScore :: "rat option \<Rightarrow> SemesterRecord \<Rightarrow> rat option" where
  "addScore acc sem =
     (case acc of None \<Rightarrow> None
      | Some s \<Rightarrow> (case scoreOf sem of None \<Rightarrow> None | Some v \<Rightarrow> Some (roundDouble (s + v))))"

definition totalScore :: "SemesterRecord list \<Rightarrow> rat option" where
  "totalScore sems = foldl addScore (Some 0) sems"

definition cgpaAvgOf :: "Env \<Rightarrow> SemesterRecord list \<Rightarrow> string" where
  "cgpaAvgOf env sems =
     (case totalScore sems of
        None \<Rightarrow> ''NaN''
      | Some t \<Rightarrow> toFixed env (roundDouble (t / of_nat (length sems))) 2)"

text \<open>The listing of all semesters.\<close>

definition semesterLine :: "Env \<Rightarrow> nat \<times> SemesterRecord \<Rightarrow> jsError + string" where
  "semesterLine env entry =
     (let index = fst entry; sem = snd entry in
      case optToFixed env (scoreOf sem) 2 of
        Inl e \<Rightarrow> Inl e
      | Inr s \<Rightarrow> Inr (''  '' @ intToString env (int index + 1) @ ''. '' @
                     semesterNameOf env sem (index + 1) @ '': '' @ s))"

definition showAllReply :: "Env \<Rightarrow> SemesterRecord list \<Rightarrow> jsError + string" where
  "showAllReply env sems =
     (case sequenceE (map (semesterLine env) (List.enumerate 0 sems)) of
        Inl e \<Rightarrow> Inl e
      | Inr semLines \<Rightarrow>
          Inr (formatReply
            ([''You have '' @ intToString env (int (length sems)) @ '' semester'' @
              plural (int (length sems)) @ '' of data:''] @
             semLines @
             (if length sems > 1 then [[CHR 0x0A] @ ''Overall CGPA: '' @ cgpaAvgOf env sems] else []))))"

text \<open>
  \<^verbatim>\<open>const difference = sgpa - first\<close>, the difference of doubles.
\<close>

definition differenceOf :: "rat \<Rightarrow> rat \<Rightarrow> rat" where
  "differenceOf first latest = roundDouble (latest - first)"

text \<open>
  The five bands of the trend, on that difference. The bounds \<^verbatim>\<open>0.3\<close> and \<^verbatim>\<open>-0.3\<close> are
  the doubles nearest to these decimals, a little below 3/10 in magnitude.
\<close>

definition trendOf :: "rat \<Rightarrow> string" where
  "trendOf difference =
     (if difference > roundDouble 0.3 then chartUp @ '' strong improvement''
      else if difference > 0 then chartUp @ '' slight improvement''
      else if difference < - roundDouble 0.3 then chartDown @ '' significant drop''
      else if difference < 0 then chartDown @ '' slight decline''
      else arrowRight @ '' stable'')"

definition trendSentence :: "Env \<Rightarrow> nat \<Rightarrow> rat \<Rightarrow> string" where
  "trendSentence env n difference =
     ''Over '' @ intToString env (int n) @ '' semesters, your grades have shown '' @
     trendOf difference @ ''.''"

definition startedSentence :: "Env \<Rightarrow> rat \<Rightarrow> rat \<Rightarrow> string" where
  "startedSentence env first latest =
     (let difference = differenceOf first latest in
      ''Started at '' @ toFixed env first 2 @ '' '' @ arrow @ '' now at '' @ toFixed env latest 2 @
      '' ('' @ (if difference > 0 then ''+'' else []) @ toFixed env difference 2 @ '').'')"

definition progressionSentence :: "Env \<Rightarrow> SemesterRecord list \<Rightarrow> jsError + string" where
  "progressionSentence env sems =
     (case sequenceE (map (\<lambda>sem. optToFixed env (scoreOf sem) 2) sems) of
        Inl e \<Rightarrow> Inl e
      | Inr vals \<Rightarrow> Inr (''Semester progression: '' @ join ('' '' @ arrow @ '' '') vals))"

definition singleSemesterTrend :: "Env \<Rightarrow> rat \<Rightarrow> string" where
  "singleSemesterTrend env s =
     ''Your current SGPA is '' @ toFixed env s 2 @ ''. Add more semesters to see trends.''"

text \<open>The reply to a trend query. Reading a score off \<^verbatim>\<open>cgpa[0]\<close> of an empty array throws.\<close>

definition trendReply :: "Env \<Rightarrow> SemesterRecord list \<Rightarrow> string \<Rightarrow> jsError + string" where
  "trendReply env sems userName =
     (if length sems = 0 then Inl TypeError
      else if length sems > 1 then
        (case scoreOf (sems ! 0) of
           None \<Rightarrow> Inl TypeError
         | Some first \<Rightarrow>
             (case scoreOf (sems ! (length sems - 1)) of
                None \<Rightarrow> Inl TypeError
              | Some latest \<Rightarrow>
                  (let parts = [trendSentence env (length sems) (differenceOf first latest),
                                startedSentence env first latest]
                   in if length sems \<le> 4 then
                        (case progressionSentence env sems of
                           Inl e \<Rightarrow> Inl e
                         | Inr p \<Rightarrow> Inr (addressMaybe env (join '' '' (parts @ [p])) userName))
                      else Inr (addressMaybe env (join '' '' parts) userName))))
      else
        (case scoreOf (sems ! 0) of
           None \<Rightarrow> Inl TypeError
         | Some s \<Rightarrow> Inr (addressMaybe env (singleSemesterTrend env s) userName)))"

text \<open>The default: the latest semester, with the average when there are several.\<close>

definition latestReply :: "Env \<Rightarrow> SemesterRecord list \<Rightarrow> string \<Rightarrow> jsError + string" where
  "latestReply env sems userName =
     (let latest = sems ! (length sems - 1);
          semesterName = semesterNameOf env latest (length sems)
      in if length sems = 0 then Inl TypeError
         else if length sems = 1 then
           (case scoreOf latest of
              None \<Rightarrow> Inl TypeError
            | Some s \<Rightarrow>
                Inr (addressMaybe env
                  (''Your SGPA for '' @ semesterName @ '' is '' @ toFixed env s 2 @ ''.'') userName))
         else
           (let cgpaAvg = cgpaAvgOf env sems in
            case scoreOf latest of
              None \<Rightarrow> Inl TypeError
            | Some s \<Rightarrow>
                Inr (paragraphStr
                  [addressMaybe env
                     (''Your latest SGPA ('' @ semesterName @ '') is '' @ toFixed env s 2 @ ''.'')
                     userName,
                   ''Your overall CGPA across '' @ intToString env (int (length sems)) @
                   '' semesters is '' @ cgpaAvg @ ''.'',
                   ''Want to see all semesters or grade trends? Just ask.''])))"

definition noAcademicReply :: string where
  "noAcademicReply = ''No academic records yet. Add your semester grades and I can track your progress.''"

definition academicInsights :: "Env \<Rightarrow> string \<Rightarrow> SemesterRecord list \<Rightarrow> string \<Rightarrow> jsError + outcome" where
  "academicInsights env lowerMessage sems userName =
     (if length sems = 0 then Inr (Reply (addressMaybe env noAcademicReply userName))
      else if isShowAll lowerMessage then map_sum id Reply (showAllReply env sems)
      else if isTrendQuery lowerMessage then map_sum id Reply (trendReply env sems userName)
      else map_sum id Reply (latestReply env sems userName))"

subsection \<open>Assignments and deadlines\<close>

text \<open>
  \<^verbatim>\<open>Object.values(assignments).reduce((sum, count) => sum + (Number(count) || 0), 0)\<close>, on
  whole-number counts; each sum is the sum of doubles.
\<close>

definition assignmentCountOf :: "(string \<times> int) list \<Rightarrow> int" where
  "assignmentCountOf asg = foldl (\<lambda>sum c. roundCount (sum + c)) 0 (map snd asg)"

text \<open>\<^verbatim>\<open>daysUntil >= 0 && daysUntil <= 7\<close>; both comparisons are false on \<^verbatim>\<open>NaN\<close>.\<close>

definition dueThisWeek :: "Env \<Rightarrow> string \<Rightarrow> bool" where
  "dueThisWeek env d = (case daysUntil env d of None \<Rightarrow> False | Some n \<Rightarrow> n \<ge> 0 \<and> n \<le> 7)"

definition countToString :: "Env \<Rightarrow> int option \<Rightarrow> string" where
  "countToString env c = optIntToString env c"

definition pluralOpt :: "int option \<Rightarrow> string" where
  "pluralOpt c = (case c of None \<Rightarrow> [] | Some n \<Rightarrow> plural n)"

definition weekLine :: "Env \<Rightarrow> (string \<times> int) list \<Rightarrow> string \<Rightarrow> string" where
  "weekLine env asg d =
     (let c = map_of asg d in
      bullet @ '' '' @ d @ '': '' @ countToString env c @ '' assignment'' @ pluralOpt c @
      '' (in '' @ daysToString env (daysUntil env d) @ '' days)'')"

definition noAssignmentsReply :: string where
  "noAssignmentsReply = ''No pending assignments at the moment.''"

definition assignmentPlanning :: "Env \<Rightarrow> string \<Rightarrow> (string \<times> int) list \<Rightarrow> string \<Rightarrow> outcome" where
  "assignmentPlanning env lowerMessage asg userName =
     (let assignmentCount = assignmentCountOf asg in
      if assignmentCount = 0 then Early (addressMaybe env noAssignmentsReply userName)
      else
        (let sortedDates = sort (map fst asg) in
         if includesStr lowerMessage ''week'' \<or> includesStr lowerMessage ''this week'' then
           (let weekAssignments = filter (dueThisWeek env) sortedDates in
            if length weekAssignments > 0 then
              Reply (addressMaybe env
                (join '' '' (''Here's what's due this week:'' # map (weekLine env asg) weekAssignments))
                userName)
            else
              Reply (addressMaybe env
                (''Nothing due this week '' @ emDash @ '' a good time to get ahead.'') userName))
         else
           (let firstDate = (case sortedDates of [] \<Rightarrow> None | d # ds \<Rightarrow> Some d);
                firstCount = (case firstDate of None \<Rightarrow> None | Some d \<Rightarrow> map_of asg d);
                days = (case firstDate of None \<Rightarrow> None | Some d \<Rightarrow> daysUntil env d)
            in if includesStr lowerMessage ''next'' \<or> includesStr lowerMessage ''upcoming'' then
                 Reply (addressMaybe env
                   (''Your next deadline is '' @ optStringToString firstDate @ '' '' @ emDash @ '' '' @
                    countToString env firstCount @ '' assignment'' @ pluralOpt firstCount @
                    '' due in '' @ daysToString env days @ '' days.'')
                   userName)
               else
                 Reply (addressMaybe env
                   (''You have '' @ intToString env assignmentCount @ '' pending assignment'' @
                    plural assignmentCount @ ''. The nearest is on '' @
                    optStringToString firstDate @ '' ('' @ countToString env firstCount @
                    '' assignment'' @ pluralOpt firstCount @ '', '' @ daysToString env days @
                    '' days).'')
                   userName))))"

subsection \<open>Calendar and events\<close>

definition categoryLower :: "CalendarMark \<Rightarrow> string" where
  "categoryLower d = toLowerCase (case orStr (categoryName d) (Some []) of Some s \<Rightarrow> s | None \<Rightarrow> [])"

definition isHolidayMark :: "CalendarMark \<Rightarrow> bool" where
  "isHolidayMark d =
     (includesStr (categoryLower d) ''holiday'' \<or>
      includesStr (categoryLower d) ''break'' \<or>
      includesStr (categoryLower d) ''vacation'')"

definition isExamMark :: "CalendarMark \<Rightarrow> bool" where
  "isExamMark d =
     (includesStr (categoryLower d) ''exam'' \<or> includesStr (categoryLower d) ''test'')"

definition markDays :: "Env \<Rightarrow> CalendarMark \<Rightarrow> int option" where
  "markDays env d = (case date d of None \<Rightarrow> None | Some s \<Rightarrow> daysUntil env s)"

text \<open>\<^verbatim>\<open>daysUntil !== 1 ? 's' : ''\<close>.\<close>

definition pluralDays :: "int option \<Rightarrow> string" where
  "pluralDays d = (if d \<noteq> Some 1 then ''s'' else [])"

definition upcomingLine :: "Env \<Rightarrow> nat \<times> CalendarMark \<Rightarrow> string" where
  "upcomingLine env entry =
     (let i = fst entry; d = snd entry in
      ''  '' @ intToString env (int i + 1) @ ''. '' @ optStringToString (date d) @ '' '' @ emDash @
      '' '' @ optStringToString (categoryName d) @ '' (in '' @ daysToString env (markDays env d) @
      '' days)'')"

definition noCalendarReply :: string where
  "noCalendarReply = ''Your calendar is clear '' @ emDash @ '' no dates marked yet.''"

definition calendarManagement :: "Env \<Rightarrow> string \<Rightarrow> CalendarMark list \<Rightarrow> string \<Rightarrow> outcome" where
  "calendarManagement env lowerMessage marks userName =
     (if length marks = 0 then Early (addressMaybe env noCalendarReply userName)
      else
        (let futureDates = getFutureDates env marks in
         if includesStr lowerMessage ''holiday'' then
           (case filter isHolidayMark futureDates of
              [] \<Rightarrow> Reply (addressMaybe env ''No upcoming holidays scheduled.'' userName)
            | nextHoliday # rest \<Rightarrow>
                Reply (addressMaybe env
                  (''Your next holiday is on '' @ optStringToString (date nextHoliday) @ '' '' @
                   emDash @ '' '' @ daysToString env (markDays env nextHoliday) @ '' day'' @
                   pluralDays (markDays env nextHoliday) @ '' to go.'')
                  userName))
         else if includesStr lowerMessage ''exam'' then
           (case filter isExamMark futureDates of
              [] \<Rightarrow> Reply (addressMaybe env ''No upcoming exams in your calendar.'' userName)
            | nextExam # rest \<Rightarrow>
                Reply (addressMaybe env
                  (''Your next exam is on '' @ optStringToString (date nextExam) @ '' '' @
                   emDash @ '' '' @ daysToString env (markDays env nextExam) @ '' day'' @
                   pluralDays (markDays env nextExam) @ '' left.'')
                  userName))
         else if includesStr lowerMessage ''next'' \<or> includesStr lowerMessage ''upcoming'' then
           (case futureDates of
              [] \<Rightarrow> Reply (addressMaybe env ''No upcoming dates in your calendar.'' userName)
            | nextDate # rest \<Rightarrow>
                Reply (addressMaybe env
                  (''Your next marked date is '' @ optStringToString (date nextDate) @ '' ('' @
                   optStringToString (categoryName nextDate) @ '') '' @ emDash @ '' in '' @
                   daysToString env (markDays env nextDate) @ '' days.'')
                  userName))
         else
           (if length futureDates = 0 then
              Reply (addressMaybe env ''No upcoming dates in your calendar.'' userName)
            else
              Reply (formatReply
                ((''You have '' @ intToString env (int (length futureDates)) @ '' upcoming date'' @
                  plural (int (length futureDates)) @ '':'') #
                 map (upcomingLine env) (List.enumerate 0 futureDates))))))"

subsection \<open>Timetable and schedule\<close>

text \<open>\<^verbatim>\<open>classes.map(c => c.name || c.subject || 'class').join(', ')\<close>.\<close>

definition classLabel :: "ClassEntry \<Rightarrow> string" where
  "classLabel c = (case orStr (orStr (name c) (subject c)) (Some ''class'') of Some s \<Rightarrow> s | None \<Rightarrow> ''class'')"

definition classList :: "ClassEntry list \<Rightarrow> string" where
  "classList classes = join '', '' (map classLabel classes)"

definition classes_es :: "nat \<Rightarrow> string" where
  "classes_es n = (if n > 1 then ''es'' else [])"

text \<open>The first day name of \<^verbatim>\<open>dayMap\<close> that the message mentions, as its index.\<close>

definition dayMap :: "(string \<times> nat) list" where
  "dayMap = [(''monday'', 0), (''tuesday'', 1), (''wednesday'', 2), (''thursday'', 3),
             (''friday'', 4), (''saturday'', 5), (''sunday'', 6)]"

definition specificDayOf :: "string \<Rightarrow> nat option" where
  "specificDayOf lowerMessage =
     map_option snd (find (\<lambda>entry. includesStr lowerMessage (fst entry)) dayMap)"

definition countToStr :: "Env \<Rightarrow> enat \<Rightarrow> string" where
  "countToStr env c = (case c of enat n \<Rightarrow> intToString env (int n) | \<infinity> \<Rightarrow> ''Infinity'')"

definition busiestSentence :: "Env \<Rightarrow> Analysis \<Rightarrow> nat \<Rightarrow> string" where
  "busiestSentence env analysis d =
     ''Your busiest day is '' @ getDayName env d @ '' with '' @
     countToStr env (count (busiestDay analysis)) @ '' classes.''"

definition isFreeDayQuery :: "string \<Rightarrow> bool" where
  "isFreeDayQuery lowerMessage =
     (includesStr lowerMessage ''free'' \<or>
      includesStr lowerMessage ''off day'' \<or>
      includesStr lowerMessage ''day off'' \<or>
      includesStr lowerMessage ''which day'')"

definition weekListLine :: "Env \<Rightarrow> (string \<times> ClassEntry list) list \<Rightarrow> nat \<Rightarrow> string" where
  "weekListLine env tt i =
     (let classCount = length (getClassesForDay env tt i);
          todayMarker = (if i = normalizedTodayIndex env then '' (today)'' else [])
      in getDayName env i @ todayMarker @ '': '' @ intToString env (int classCount) @ '' class'' @
         (if classCount \<noteq> 1 then ''es'' else []))"

definition timetableAnalysis :: "Env \<Rightarrow> string \<Rightarrow> (string \<times> ClassEntry list) list \<Rightarrow> string \<Rightarrow> outcome" where
  "timetableAnalysis env lowerMessage tt userName =
     (let analysis = analyzeWeeklyPattern env tt;
          todayClasses = getClassesForDay env tt (normalizedTodayIndex env);
          tomorrowClasses = getClassesForDay env tt ((normalizedTodayIndex env + 1) mod 7);
          specificDay = specificDayOf lowerMessage
      in
      if isBusiestDay lowerMessage then
        (case day (busiestDay analysis) of
           Some d \<Rightarrow> Reply (addressMaybe env (busiestSentence env analysis d) userName)
         | None \<Rightarrow>
             if totalClasses analysis = 0 then
               Reply (addressMaybe env ''No classes scheduled this week.'' userName)
             else Reply (addressMaybe env ''Your schedule is pretty evenly spread out.'' userName))
      else if isWorkload lowerMessage then
        (if totalClasses analysis = 0 then
           Reply (addressMaybe env
             (''No classes scheduled this week '' @ emDash @ '' you're completely free.'') userName)
         else
           Reply (addressMaybe env
             (join '' ''
               ([''You have '' @ intToString env (int (totalClasses analysis)) @ '' classes across '' @
                 intToString env (int (daysWithClasses analysis)) @ '' days this week.''] @
                [if totalClasses analysis \<ge> 8 then
                   ''That's quite a full week '' @ emDash @ '' make sure to pace yourself.''
                 else if totalClasses analysis \<ge> 5 then
                   ''A moderate week '' @ emDash @ '' manageable with good planning.''
                 else ''A lighter week '' @ emDash @ '' good time to get ahead on other work.''] @
                (case day (busiestDay analysis) of
                   Some d \<Rightarrow> [busiestSentence env analysis d]
                 | None \<Rightarrow> [])))
             userName))
      else if includesStr lowerMessage ''tomorrow'' then
        (if length tomorrowClasses > 0 then
           Reply (addressMaybe env
             (''Tomorrow you have '' @ intToString env (int (length tomorrowClasses)) @ '' class'' @
              classes_es (length tomorrowClasses) @ '': '' @ classList tomorrowClasses @ ''.'')
             userName)
         else Reply (addressMaybe env (''No classes tomorrow '' @ emDash @ '' you're free.'') userName))
      else if includesStr lowerMessage ''today'' then
        (if length todayClasses > 0 then
           Reply (addressMaybe env
             (''Today's schedule: '' @ intToString env (int (length todayClasses)) @ '' class'' @
              classes_es (length todayClasses) @ '' '' @ emDash @ '' '' @ classList todayClasses @ ''.'')
             userName)
         else Reply (addressMaybe env ''No classes today. A good day to catch up on work.'' userName))
      else if specificDay \<noteq> None then
        (let d = the specificDay; classes = getClassesForDay env tt d in
         if length classes > 0 then
           Reply (addressMaybe env
             (''On '' @ getDayName env d @ '': '' @ intToString env (int (length classes)) @
              '' class'' @ classes_es (length classes) @ '' '' @ emDash @ '' '' @ classList classes @
              ''.'')
             userName)
         else
           Reply (addressMaybe env
             (getDayName env d @ '' is free '' @ emDash @ '' no classes scheduled.'') userName))
      else if isFreeDayQuery lowerMessage then
        (let freeDays = map (getDayName env)
                          (filter (\<lambda>i. length (getClassesForDay env tt i) = 0) [0..<7])
         in if length freeDays > 0 then
              Reply (addressMaybe env (''You're free on: '' @ join '', '' freeDays @ ''.'') userName)
            else
              Reply (addressMaybe env
                (''You have classes every day this week '' @ emDash @ '' no full free days.'')
                userName))
      else if includesStr lowerMessage ''week'' \<or> includesStr lowerMessage ''weekly'' then
        (if totalClasses analysis > 0 then
           Reply (addressMaybe env
             (join '' '' (''Here's your week:'' # map (weekListLine env tt) [0..<7])) userName)
         else
           Reply (addressMaybe env
             (''No classes scheduled this week '' @ emDash @ '' a completely free week.'') userName))
      else
        (if length todayClasses > 0 then
           Reply (addressMaybe env
             (''Today: '' @ intToString env (int (length todayClasses)) @ '' class'' @
              classes_es (length todayClasses) @ '' '' @ emDash @ '' '' @ classList todayClasses @ ''.'')
             userName)
         else
           Reply (addressMaybe env
             ''No classes today. Want to know about tomorrow or the rest of the week?'' userName)))"

subsection \<open>Greeting, gratitude and guidance\<close>

definition greetingReply ::
  "Env \<Rightarrow> (string \<times> ClassEntry list) list \<Rightarrow> int \<Rightarrow> AttendanceSummary \<Rightarrow> ExpenseSummary \<Rightarrow>
   string \<Rightarrow> outcome" where
  "greetingReply env tt assignmentCount att exps userName =
     (let todayClasses = getClassesForDay env tt (normalizedTodayIndex env);
          timeOfDay = nowHours env;
          greeting = (if timeOfDay < 12 then ''Good morning''
                      else if timeOfDay < 17 then ''Good afternoon''
                      else ''Good evening'');
          greetingLine = (if mathRandom env < 0.5 then greeting @ '', '' @ userName @ ''.''
                          else greeting @ ''.'');
          parts =
            [greetingLine,
             (if length todayClasses > 0 then
                ''You have '' @ intToString env (int (length todayClasses)) @ '' class'' @
                classes_es (length todayClasses) @ '' today.''
              else ''You're free today '' @ emDash @ '' no classes scheduled.''),
             (if assignmentCount > 0 then
                intToString env assignmentCount @ '' pending assignment'' @ plural assignmentCount @ ''.''
              else []),
             (if positiveInt (totalHeld att) then
                ''Attendance at '' @ optNumberToString env (percentage att) @ ''%.''
              else []),
             (if positiveNum (thisMonth exps) then
                ''Spent '' @ rupee @ toFixed env (numOrZero (thisMonth exps)) 2 @ '' this month.''
              else []),
             ''Let me know if you need anything specific.'']
      in Reply (formatReply parts))"

definition gratitudeReply :: "Env \<Rightarrow> string \<Rightarrow> outcome" where
  "gratitudeReply env userName =
     Reply (addressMaybe env ''Happy to help. Let me know if you need anything else.'' userName)"

definition guidanceReply :: "Env \<Rightarrow> string \<Rightarrow> outcome" where
  "guidanceReply env userName =
     Reply (addressMaybe env
       (''I can help you check your schedule, assignments, attendance, expenses, or calendar. '' @
        ''Just ask '' @ emDash @ '' like 'how busy is my week' or 'when's my next exam'.'')
       userName)"

section \<open>The response\<close>

record DataUsed =
  hasExpenses :: bool
  hasAttendance :: bool
  hasTimetable :: bool
  hasAssignments :: bool
  hasCalendar :: bool
  hasCgpa :: bool

record Metadata =
  timestamp :: string
  metaUserName :: string
  dataUsed :: DataUsed

text \<open>
  The JSON body the handler sends, with its HTTP status; \<open>None\<close> is a key that the body
  does not carry. \<open>intentLabel\<close> is the key \<^verbatim>\<open>intent\<close>, \<open>errorDetail\<close> the key \<^verbatim>\<open>error\<close>, and
  \<open>metaUserName\<close> the key \<^verbatim>\<open>userName\<close> of the metadata.
\<close>

record Response =
  status :: nat
  intentLabel :: intent
  reply :: string
  metadata :: "Metadata option"
  errorDetail :: "string option"

definition metadataOf :: "Env \<Rightarrow> RequestBundle \<Rightarrow> Metadata" where
  "metadataOf env req =
     \<lparr>timestamp = nowISO env,
      metaUserName = userNameOf req,
      dataUsed =
        \<lparr>hasExpenses = (expenseKeys (expensesOf req) > 0),
         hasAttendance = positiveInt (totalHeld (attendanceOf req)),
         hasTimetable = (length (timetableOf req) > 0),
         hasAssignments = (assignmentCountOf (assignmentsOf req) > 0),
         hasCalendar = (length (calendarMarksOf req) > 0),
         hasCgpa = (length (cgpaOf req) > 0)\<rparr>\<rparr>"

text \<open>What the branch of an intent computes.\<close>

definition runBranch :: "Env \<Rightarrow> RequestBundle \<Rightarrow> intent \<Rightarrow> jsError + outcome" where
  "runBranch env req i =
     (let lowerMessage = toLowerCase (message req); userName = userNameOf req in
      case i of
        NAME_QUERY \<Rightarrow> Inr (nameQuery userName)
      | EXPENSE_MONTHLY \<Rightarrow> Inr (expenseMonthly env (expensesOf req) userName)
      | EXPENSE_INSIGHTS \<Rightarrow> Inr (expenseInsights env (expensesOf req) userName)
      | ATTENDANCE_INSIGHTS \<Rightarrow> Inr (attendanceInsights env lowerMessage (attendanceOf req) userName)
      | ACADEMIC_INSIGHTS \<Rightarrow> academicInsights env lowerMessage (cgpaOf req) userName
      | ASSIGNMENT_PLANNING \<Rightarrow> Inr (assignmentPlanning env lowerMessage (assignmentsOf req) userName)
      | CALENDAR_MANAGEMENT \<Rightarrow> Inr (calendarManagement env lowerMessage (calendarMarksOf req) userName)
      | TIMETABLE_ANALYSIS \<Rightarrow> Inr (timetableAnalysis env lowerMessage (timetableOf req) userName)
      | GREETING \<Rightarrow>
          Inr (greetingReply env (timetableOf req) (assignmentCountOf (assignmentsOf req))
                 (attendanceOf req) (expensesOf req) userName)
      | GRATITUDE \<Rightarrow> Inr (gratitudeReply env userName)
      | _ \<Rightarrow> Inr (guidanceReply env userName))"

text \<open>
  The handler, from the sanitised message on (\<^verbatim>\<open>message\<close> of the bundle is the handler's
  \<^verbatim>\<open>sanitizedMessage\<close>): the body as JSON parsing delivers it, the intent of the first
  condition that holds, its branch, and the response; an exception is caught and answered
  with the intent \<^verbatim>\<open>ERROR\<close>.
\<close>

definition errorReply :: string where
  "errorReply = ''Something went wrong. Could you try that again?''"

definition classifyAndRespond :: "Env \<Rightarrow> RequestBundle \<Rightarrow> Response" where
  "classifyAndRespond env req =
     (let body = jsonBody req;
          i = classify (toLowerCase (message body)) (message body)
      in
      case runBranch env body i of
        Inl e \<Rightarrow>
          \<lparr>status = 500, intentLabel = ERROR, reply = errorReply, metadata = None,
           errorDetail = (if DEBUG env then Some (errorMessage env e) else None)\<rparr>
      | Inr (Early r) \<Rightarrow>
          \<lparr>status = 200, intentLabel = i, reply = r, metadata = None, errorDetail = None\<rparr>
      | Inr (Reply r) \<Rightarrow>
          \<lparr>status = 200, intentLabel = i, reply = r, metadata = Some (metadataOf env body),
           errorDetail = None\<rparr>)"

section \<open>The first handler\<close>

text \<open>
  The handler of \<^verbatim>\<open>routes/chat.route.js\<close>, as far as it writes to the request body. It
  has no name query, fewer keywords, and it reads a calendar mark either as a date string
  or as an object with a category name.
\<close>

datatype MarkV1 = DateString string | MarkObject CalendarMark

definition isAcademicV1 :: "string \<Rightarrow> bool" where
  "isAcademicV1 lowerMessage =
     (includesStr lowerMessage ''cgpa'' \<or>
      includesStr lowerMessage ''gpa'' \<or>
      includesStr lowerMessage ''grade'' \<or>
      includesStr lowerMessage ''sgpa'' \<or>
      includesStr lowerMessage ''semester'' \<or>
      includesStr lowerMessage ''marks'' \<or>
      includesStr lowerMessage ''performance'')"

definition isCalendarV1 :: "string \<Rightarrow> bool" where
  "isCalendarV1 lowerMessage =
     (includesStr lowerMessage ''calendar'' \<or>
      includesStr lowerMessage ''event'' \<or>
      includesStr lowerMessage ''exam'' \<or>
      includesStr lowerMessage ''important date'' \<or>
      includesStr lowerMessage ''meeting'')"

definition isTimetableV1 :: "string \<Rightarrow> bool" where
  "isTimetableV1 lowerMessage =
     (includesStr lowerMessage ''class'' \<or>
      includesStr lowerMessage ''lecture'' \<or>
      includesStr lowerMessage ''timetable'' \<or>
      includesStr lowerMessage ''schedule'' \<or>
      includesStr lowerMessage ''tomorrow'' \<or>
      includesStr lowerMessage ''today'' \<or>
      includesStr lowerMessage ''free day'' \<or>
      includesStr lowerMessage ''week'' \<or>
      includesStr lowerMessage ''busy'' \<or>
      includesStr lowerMessage ''packed'')"

definition isGreetingV1 :: "string \<Rightarrow> bool" where
  "isGreetingV1 lowerMessage =
     (includesStr lowerMessage ''hi'' \<or>
      includesStr lowerMessage ''hello'' \<or>
      includesStr lowerMessage ''hey'' \<or>
      lowerMessage = [])"

definition classifyV1 :: "string \<Rightarrow> intent" where
  "classifyV1 lowerMessage =
     (if isExpenseMonthly lowerMessage then EXPENSE_MONTHLY
      else if isExpenseInsights lowerMessage then EXPENSE_INSIGHTS
      else if isAttendance lowerMessage then ATTENDANCE_INSIGHTS
      else if isAcademicV1 lowerMessage then ACADEMIC_INSIGHTS
      else if isAssignment lowerMessage then ASSIGNMENT_PLANNING
      else if isCalendarV1 lowerMessage then CALENDAR_MANAGEMENT
      else if isTimetableV1 lowerMessage then TIMETABLE_ANALYSIS
      else if isGreetingV1 lowerMessage then GREETING
      else if isGratitude lowerMessage then GRATITUDE
      else GUIDANCE)"

text \<open>
  \<^verbatim>\<open>calendarMarks.sort()\<close>: the array is sorted in place, by the strings of its elements (an
  object prints as \<^verbatim>\<open>[object Object]\<close>); the sort is stable.
\<close>

definition markToString :: "MarkV1 \<Rightarrow> string" where
  "markToString m = (case m of DateString s \<Rightarrow> s | MarkObject obj \<Rightarrow> ''[object Object]'')"

definition sortInPlace :: "MarkV1 list \<Rightarrow> MarkV1 list" where
  "sortInPlace marks = sort_key markToString marks"

text \<open>
  The request body once the first handler has answered. A missing message is answered
  with status 400 before anything else; the calendar branch returns early on an empty
  array and sorts it otherwise. No other statement of this handler writes to the body.
\<close>

definition bodyAfterV1 :: "MarkV1 Bundle \<Rightarrow> MarkV1 Bundle" where
  "bodyAfterV1 req =
     (let marks = (case calendarMarks req of None \<Rightarrow> [] | Some c \<Rightarrow> c) in
      if message req = [] then req
      else if classifyV1 (toLowerCase (message req)) = CALENDAR_MANAGEMENT \<and> length marks \<noteq> 0
      then req\<lparr>calendarMarks := Some (sortInPlace marks)\<rparr>
      else req)"

section \<open>The classifier as the specification words it\<close>

text \<open>
  The ordered table of (intent, predicate) pairs of the specification, and the evaluation
  that returns the intent of the first predicate that holds, \<^verbatim>\<open>GUIDANCE\<close> when none does.
\<close>

definition intentRules :: "string \<Rightarrow> (intent \<times> (string \<Rightarrow> bool)) list" where
  "intentRules sanitizedMessage =
     [(NAME_QUERY, isNameQuery),
      (EXPENSE_MONTHLY, isExpenseMonthly),
      (EXPENSE_INSIGHTS, isExpenseInsights),
      (ATTENDANCE_INSIGHTS, isAttendance),
      (ACADEMIC_INSIGHTS, isAcademic),
      (ASSIGNMENT_PLANNING, isAssignment),
      (CALENDAR_MANAGEMENT, isCalendar),
      (TIMETABLE_ANALYSIS, isTimetable),
      (GREETING, \<lambda>lowerMessage. isGreeting lowerMessage sanitizedMessage),
      (GRATITUDE, isGratitude)]"

fun firstMatch :: "(intent \<times> (string \<Rightarrow> bool)) list \<Rightarrow> string \<Rightarrow> intent" where
  "firstMatch [] lowerMessage = GUIDANCE"
| "firstMatch (rule # rules) lowerMessage =
     (if snd rule lowerMessage then fst rule else firstMatch rules lowerMessage)"

section \<open>Sample inputs\<close>

text \<open>
  A request served on Wednesday 2025-01-08 at 09:00 UTC by a server on UTC, in production
  mode, with a draw of \<^verbatim>\<open>Math.random()\<close> that leaves the name out; the parser knows the
  dates the samples use, among them one with a time of day, 10:00 UTC on 2025-01-09.
\<close>

definition sampleParseDate :: "string \<Rightarrow> int option" where
  "sampleParseDate s =
     (if s = ''2025-01-07'' then Some 1736208000000
      else if s = ''2025-01-08'' then Some 1736294400000
      else if s = ''2025-01-09T10:00:00Z'' then Some 1736416800000
      else if s = ''2025-01-10'' then Some 1736467200000
      else if s = ''2025-01-15'' then Some 1736899200000
      else if s = ''2025-01-16'' then Some 1736985600000
      else None)"

definition sampleToString :: "rat \<Rightarrow> string" where
  "sampleToString r = (if r = 72.5 then ''72.5'' else ''NaN'')"

definition sampleErrorMessage :: "jsError \<Rightarrow> string" where
  "sampleErrorMessage e = ''Cannot read properties of undefined (reading 'toFixed')''"

definition sampleEnv :: Env where
  "sampleEnv =
     \<lparr>DEBUG = False,
      nowMs = 1736326800000,
      nowDay = 3,
      nowHours = 9,
      nowISO = ''2025-01-08T09:00:00.000Z'',
      todayMidnightMs = 1736294400000,
      mathRandom = 0.5,
      parseDate = sampleParseDate,
      toStringJS = sampleToString,
      errorMessage = sampleErrorMessage\<rparr>"

text \<open>A body that carries the message and nothing else.\<close>

definition bareRequest :: "string \<Rightarrow> 'mark Bundle" where
  "bareRequest m =
     \<lparr>message = m, user = None, assignments = None, timetable = None, todayIndex = None,
      cgpa = None, calendarMarks = None, attendance = None, expenses = None\<rparr>"

text \<open>A semester record that carries its score under \<^verbatim>\<open>sgpa\<close> and nothing else.\<close>

definition sgpaOnly :: "rat \<Rightarrow> SemesterRecord" where
  "sgpaOnly x = \<lparr>sgpa = Some x, gpa = None, score = None, semester = None, semName = None\<rparr>"

text \<open>A class with a name and nothing else.\<close>

definition namedClass :: "string \<Rightarrow> ClassEntry" where
  "namedClass n = \<lparr>name = Some n, subject = None, startTime = None, endTime = None, time = None\<rparr>"

text \<open>
  A week with one class on Monday, two on Wednesday, two on Thursday and one on Saturday:
  six classes on four days, Wednesday the busiest day and Monday the lightest.
\<close>

definition sampleWeek :: "(string \<times> ClassEntry list) list" where
  "sampleWeek =
     [(''day_0'', [namedClass ''Maths'']),
      (''day_2'', [namedClass ''Physics'', namedClass ''Lab'']),
      (''day_3'', [namedClass ''Maths'', namedClass ''Chemistry'']),
      (''day_5'', [namedClass ''Sports''])]"

text \<open>
  Assignments due the day before the request, on its day, two, seven and eight days later.
\<close>

definition sampleAssignments :: "(string \<times> int) list" where
  "sampleAssignments =
     [(''2025-01-16'', 1), (''2025-01-10'', 2), (''2025-01-07'', 1), (''2025-01-08'', 1),
      (''2025-01-15'', 3)]"

section \<open>Doubles\<close>

text \<open>The exponent of a positive number is the floor of its binary logarithm.\<close>

lemma bitlen_powi:
  assumes "0 < n"
  shows "(2::rat) powi (bitlen n - 1) \<le> of_int n" and "(of_int n :: rat) < 2 powi bitlen n"
proof -
  from assms have b1: "1 \<le> bitlen n" by (auto simp: bitlen_alt_def)
  from bitlen_bounds [OF assms] have lo: "2 ^ nat (bitlen n - 1) \<le> n" and hi: "n < 2 ^ nat (bitlen n)"
    by auto
  have "(of_int (2 ^ nat (bitlen n - 1)) :: rat) \<le> of_int n" using lo by (simp only: of_int_le_iff)
  then show "(2::rat) powi (bitlen n - 1) \<le> of_int n" using b1 by (simp add: power_int_def)
  have "(of_int n :: rat) < of_int (2 ^ nat (bitlen n))" using hi by (simp only: of_int_less_iff)
  then show "(of_int n :: rat) < 2 powi bitlen n" using b1 by (simp add: power_int_def)
qed

lemma exponentOf_bounds:
  assumes "0 < x"
  shows "2 powi exponentOf x \<le> x" and "x < 2 powi (exponentOf x + 1)"
proof -
  obtain p q where pq: "quotient_of x = (p, q)" by (cases "quotient_of x")
  then have q: "0 < q" and x: "x = of_int p / of_int q"
    by (rule quotient_of_denom_pos, rule quotient_of_div)
  have p: "0 < p"
  proof (rule ccontr)
    assume "\<not> 0 < p"
    then have "(of_int p :: rat) \<le> 0" by simp
    then have "x \<le> 0" using q x by (simp add: divide_nonpos_pos)
    with assms show False by simp
  qed
  let ?a = "bitlen p" and ?b = "bitlen q"
  have qpos: "(0::rat) < of_int q" using q by simp
  have two: "(0::rat) < 2 powi k" for k by (simp add: power_int_def)
  have up: "x < 2 powi (?a - ?b + 1)"
  proof -
    have "x < 2 powi ?a / of_int q"
      unfolding x using bitlen_powi(2) [OF p] qpos by (simp add: divide_strict_right_mono)
    also have "\<dots> \<le> 2 powi ?a / 2 powi (?b - 1)"
      using bitlen_powi(1) [OF q] two [of "?b - 1"] two [of ?a]
      by (intro divide_left_mono) (auto intro: mult_pos_pos qpos)
    also have "\<dots> = 2 powi (?a - (?b - 1))" by (simp add: power_int_diff)
    finally show ?thesis by (simp add: algebra_simps)
  qed
  have lo: "2 powi (?a - ?b - 1) < x"
  proof -
    have "(2::rat) powi (?a - ?b - 1) = 2 powi (?a - 1) / 2 powi ?b"
      by (simp add: power_int_diff [symmetric] algebra_simps)
    also have "\<dots> \<le> of_int p / 2 powi ?b"
      using bitlen_powi(1) [OF p] two [of ?b] by (simp add: divide_right_mono)
    also have "\<dots> < of_int p / of_int q"
      using bitlen_powi(2) [OF q] p qpos by (intro divide_strict_left_mono) (auto intro: mult_pos_pos two)
    finally show ?thesis by (simp add: x)
  qed
  show "2 powi exponentOf x \<le> x"
    using lo by (auto simp: exponentOf_def pq Let_def)
  show "x < 2 powi (exponentOf x + 1)"
    using up by (auto simp: exponentOf_def pq Let_def not_le algebra_simps)
qed

lemma roundHalfEven_of_int: "roundHalfEven (of_int n) = n"
  by (simp add: roundHalfEven_def)

lemma roundHalfEven_nonneg: "0 \<le> q \<Longrightarrow> 0 \<le> roundHalfEven q"
  by (simp add: roundHalfEven_def Let_def)

text \<open>
  A number \<open>m * 2\<^sup>k\<close> with \<open>\<bar>m\<bar> < 2\<^sup>5\<^sup>3\<close> and \<open>k \<ge> -1074\<close> is a double: rounding leaves it as
  it is.
\<close>

lemma roundDouble_exact:
  assumes "\<bar>m\<bar> < 2 ^ 53" "- 1074 \<le> k"
  shows "roundDouble (of_int m * 2 powi k) = of_int m * 2 powi k"
proof (cases "m = 0")
  case True
  then show ?thesis by (simp add: roundDouble_def)
next
  case False
  let ?x = "of_int m * (2::rat) powi k"
  let ?e = "max (exponentOf \<bar>?x\<bar>) (- 1022)"
  have two: "(0::rat) < 2 powi j" for j by (simp add: power_int_def)
  have ax: "\<bar>?x\<bar> = of_int \<bar>m\<bar> * 2 powi k" using two [of k] by (simp add: abs_mult)
  have xpos: "0 < \<bar>?x\<bar>" using False two [of k] by simp
  have "2 powi exponentOf \<bar>?x\<bar> \<le> \<bar>?x\<bar>" by (rule exponentOf_bounds(1) [OF xpos])
  also have "\<bar>?x\<bar> < 2 ^ 53 * 2 powi k"
    unfolding ax using assms(1) two [of k]
    by (intro mult_strict_right_mono) (auto simp: of_int_less_numeral_power_cancel_iff)
  also have "\<dots> = 2 powi (53 + k)" by (simp add: power_int_add)
  finally have lt: "(2::rat) powi exponentOf \<bar>?x\<bar> < 2 powi (53 + k)" .
  have "exponentOf \<bar>?x\<bar> < 53 + k"
  proof (rule ccontr)
    assume "\<not> exponentOf \<bar>?x\<bar> < 53 + k"
    then have "(2::rat) powi (53 + k) \<le> 2 powi exponentOf \<bar>?x\<bar>"
      by (intro power_int_increasing) auto
    with lt show False by simp
  qed
  then have ek: "?e - 52 \<le> k" using assms(2) by simp
  define d where "d = k - (?e - 52)"
  have d: "0 \<le> d" using ek by (simp add: d_def)
  have "\<bar>?x\<bar> / 2 powi (?e - 52) = of_int \<bar>m\<bar> * 2 powi d"
    unfolding ax d_def by (simp add: power_int_diff)
  also have "\<dots> = of_int (\<bar>m\<bar> * 2 ^ nat d)" using d by (simp add: power_int_def)
  finally have q: "\<bar>?x\<bar> / 2 powi (?e - 52) = of_int (\<bar>m\<bar> * 2 ^ nat d)" .
  have "roundDouble ?x = sgn ?x * of_int (\<bar>m\<bar> * 2 ^ nat d) * 2 powi (?e - 52)"
    using False two [of k]
    by (simp add: roundDouble_def Let_def q roundHalfEven_of_int del: of_int_mult of_int_power)
  also have "\<dots> = sgn ?x * (\<bar>?x\<bar> / 2 powi (?e - 52)) * 2 powi (?e - 52)" by (simp only: q)
  also have "\<dots> = sgn ?x * \<bar>?x\<bar>" using two [of "?e - 52"] by simp
  also have "\<dots> = ?x" by (simp only: sgn_mult_abs)
  finally show ?thesis .
qed

lemma roundDouble_of_int: "\<bar>i\<bar> < 2 ^ 53 \<Longrightarrow> roundDouble (of_int i) = of_int i"
  using roundDouble_exact [of i 0] by simp

lemma roundDouble_three_quarters:
  assumes "\<bar>h\<bar> \<le> 2 ^ 51"
  shows "roundDouble (of_int h * 0.75) = of_int h * 0.75"
proof -
  have "\<bar>3 * h\<bar> < 2 ^ 53" using assms by simp
  then have exact: "roundDouble (of_int (3 * h) * 2 powi (- 2)) = of_int (3 * h) * 2 powi (- 2)"
    by (intro roundDouble_exact) simp_all
  have eq: "(of_int (3 * h) :: rat) * 2 powi (- 2) = of_int h * 0.75"
    by (simp add: power_int_def power2_eq_square)
  show ?thesis using exact unfolding eq .
qed

text \<open>Rounding keeps the sign.\<close>

lemma roundDouble_nonpos: "x \<le> 0 \<Longrightarrow> roundDouble x \<le> 0"
proof (cases "x = 0")
  case True
  then show ?thesis by (simp add: roundDouble_def)
next
  case False
  assume "x \<le> 0"
  with False have neg: "x < 0" by simp
  let ?u = "(2::rat) powi (max (exponentOf \<bar>x\<bar>) (- 1022) - 52)"
  have u: "0 < ?u" by (simp add: power_int_def)
  have "0 \<le> \<bar>x\<bar> / ?u" using u by simp
  then have "0 \<le> roundHalfEven (\<bar>x\<bar> / ?u)" by (rule roundHalfEven_nonneg)
  then have "0 \<le> (of_int (roundHalfEven (\<bar>x\<bar> / ?u)) :: rat) * ?u" using u by simp
  then show ?thesis using neg False by (simp add: roundDouble_def Let_def)
qed

lemma roundCount_exact: "\<bar>i\<bar> < 2 ^ 53 \<Longrightarrow> roundCount i = i"
  by (simp add: roundCount_def roundDouble_of_int)

lemma roundCount_nonpos: "i \<le> 0 \<Longrightarrow> roundCount i \<le> 0"
proof -
  assume "i \<le> 0"
  then have "roundDouble (of_int i) \<le> 0" by (intro roundDouble_nonpos) simp
  then have "\<lfloor>roundDouble (of_int i)\<rfloor> \<le> \<lfloor>0::rat\<rfloor>" by (rule floor_mono)
  then show ?thesis by (simp add: roundCount_def)
qed

text \<open>
  Decimals that are no doubles: 0.3 and 8.3 are read a little off, a grade of 8.575 prints
  as 8.57, and the scores 8.0 and 8.3 differ by more than the bound 0.3.
\<close>

lemma decimal_examples:
  "roundDouble 0.3 = 5404319552844595 / 18014398509481984
   \<and> roundDouble 0.3 < 0.3
   \<and> roundDouble 8.3 = 2336242306698445 / 281474976710656
   \<and> roundDouble 0.3 < roundDouble (roundDouble 8.3 - roundDouble 8.0)
   \<and> toFixed sampleEnv (roundDouble 8.575) 2 = ''8.57''
   \<and> roundDouble 7.5 = 7.5"
  by code_simp


section \<open>Substring containment\<close>

lemma startsWith_iff: "startsWith s p \<longleftrightarrow> (\<exists>b. s = p @ b)"
  by (induction s p rule: startsWith.induct) auto

lemma includesStr_iff: "includesStr s p \<longleftrightarrow> (\<exists>a b. s = a @ p @ b)"
proof (induction s)
  case Nil
  then show ?case by auto
next
  case (Cons c cs)
  show ?case
  proof
    assume "includesStr (c # cs) p"
    then consider "startsWith (c # cs) p" | "includesStr cs p" by auto
    then show "\<exists>a b. c # cs = a @ p @ b"
    proof cases
      case 1
      then obtain b where "c # cs = p @ b" by (auto simp: startsWith_iff)
      then have "c # cs = [] @ p @ b" by simp
      then show ?thesis by blast
    next
      case 2
      then obtain a b where "cs = a @ p @ b" using Cons.IH by auto
      then have "c # cs = (c # a) @ p @ b" by simp
      then show ?thesis by blast
    qed
  next
    assume "\<exists>a b. c # cs = a @ p @ b"
    then obtain a b where ab: "c # cs = a @ p @ b" by blast
    show "includesStr (c # cs) p"
    proof (cases a)
      case Nil
      with ab have "startsWith (c # cs) p" by (auto simp: startsWith_iff)
      then show ?thesis by simp
    next
      case (Cons x xs)
      with ab have "cs = xs @ p @ b" by simp
      then have "includesStr cs p" using Cons.IH by blast
      then show ?thesis by simp
    qed
  qed
qed

section \<open>The order of the classifier\<close>

lemma classify_firstMatch: "classify lm sm = firstMatch (intentRules sm) lm"
  by (simp add: classify_def intentRules_def)

lemma monthly_first:
  "includesStr lm ''this month'' \<Longrightarrow> includesStr lm ''spend'' \<or> includesStr lm ''expense'' \<Longrightarrow>
   classify lm sm = (if isNameQuery lm then NAME_QUERY else EXPENSE_MONTHLY)"
  by (simp add: classify_def isExpenseMonthly_def)

lemma monthly_example:
  "classify (toLowerCase ''how much did I spend this month'') ''how much did I spend this month''
     = EXPENSE_MONTHLY"
  by code_simp

lemma monthly_first_V1: "isExpenseMonthly lm \<Longrightarrow> classifyV1 lm = EXPENSE_MONTHLY"
  by (simp add: classifyV1_def)

text \<open>
  Claim C1, as the specification states it, fails: a message that contains ``this month''
  and ``spend'' and also asks for the user's name is a \<^verbatim>\<open>NAME_QUERY\<close>, since the name
  query is the first condition of the chain.
\<close>

theorem name_query_before_expense_monthly:
  "isExpenseMonthly (toLowerCase ''What is my name, and how much did I spend this month?'')
   \<and> classify (toLowerCase ''What is my name, and how much did I spend this month?'')
        ''What is my name, and how much did I spend this month?'' = NAME_QUERY
   \<and> NAME_QUERY \<noteq> EXPENSE_MONTHLY"
  by code_simp

text \<open>
  Claim C1, amended: the classifier is the first-match evaluation of the ordered table of
  predicates, \<^verbatim>\<open>NAME_QUERY\<close> first and \<^verbatim>\<open>GUIDANCE\<close> when none holds. A message whose
  lowercased text contains ``this month'' together with ``spend'' or ``expense'' is never
  classified as \<^verbatim>\<open>EXPENSE_INSIGHTS\<close>: it is \<^verbatim>\<open>EXPENSE_MONTHLY\<close> unless it contains one of the
  name-query phrases, and \<^verbatim>\<open>NAME_QUERY\<close> then. The message ``how much did I spend this
  month'' is \<^verbatim>\<open>EXPENSE_MONTHLY\<close>.
\<close>

theorem expense_monthly_precedence:
  "(includesStr lm ''this month'' \<and> (includesStr lm ''spend'' \<or> includesStr lm ''expense'')
      \<longrightarrow> classify lm sm \<noteq> EXPENSE_INSIGHTS
          \<and> classify lm sm = (if isNameQuery lm then NAME_QUERY else EXPENSE_MONTHLY))
   \<and> classify lm sm = firstMatch (intentRules sm) lm
   \<and> classify (toLowerCase ''how much did I spend this month'') ''how much did I spend this month''
       = EXPENSE_MONTHLY"
proof (intro conjI impI)
  assume h: "includesStr lm ''this month'' \<and> (includesStr lm ''spend'' \<or> includesStr lm ''expense'')"
  then show c: "classify lm sm = (if isNameQuery lm then NAME_QUERY else EXPENSE_MONTHLY)"
    using monthly_first by blast
  then show "classify lm sm \<noteq> EXPENSE_INSIGHTS" by simp
next
  show "classify lm sm = firstMatch (intentRules sm) lm" by (rule classify_firstMatch)
next
  show "classify (toLowerCase ''how much did I spend this month'') ''how much did I spend this month''
       = EXPENSE_MONTHLY" by (rule monthly_example)
qed

theorem expense_monthly_precedence_witness:
  "includesStr ''how much did i spend this month'' ''this month''
   \<and> includesStr ''how much did i spend this month'' ''spend''
   \<and> \<not> isNameQuery ''how much did i spend this month''
   \<and> classify ''how much did i spend this month'' ''how much did I spend this month'' = EXPENSE_MONTHLY
   \<and> classify ''how much did i spend this month'' ''how much did I spend this month'' \<noteq> EXPENSE_INSIGHTS
   \<and> includesStr ''who am i and what did i spend this month'' ''this month''
   \<and> includesStr ''who am i and what did i spend this month'' ''spend''
   \<and> isNameQuery ''who am i and what did i spend this month''
   \<and> classify ''who am i and what did i spend this month'' ''Who am I and what did I spend this month''
       = NAME_QUERY"
proof -
  have h1: "includesStr ''how much did i spend this month'' ''this month''" by code_simp
  have h2: "includesStr ''how much did i spend this month'' ''spend''" by code_simp
  have h3: "\<not> isNameQuery ''how much did i spend this month''" by code_simp
  have c1: "classify ''how much did i spend this month'' ''how much did I spend this month'' = EXPENSE_MONTHLY
     \<and> classify ''how much did i spend this month'' ''how much did I spend this month'' \<noteq> EXPENSE_INSIGHTS"
    using h1 h2 h3
      expense_monthly_precedence [of "''how much did i spend this month''"
        "''how much did I spend this month''"]
    by simp
  have g1: "includesStr ''who am i and what did i spend this month'' ''this month''" by code_simp
  have g2: "includesStr ''who am i and what did i spend this month'' ''spend''" by code_simp
  have g3: "isNameQuery ''who am i and what did i spend this month''" by code_simp
  have c2: "classify ''who am i and what did i spend this month''
              ''Who am I and what did I spend this month'' = NAME_QUERY"
    using g1 g2 g3
      expense_monthly_precedence [of "''who am i and what did i spend this month''"
        "''Who am I and what did I spend this month''"]
    by simp
  show ?thesis using h1 h2 h3 c1 g1 g2 g3 c2 by blast
qed

section \<open>Greetings\<close>

lemma greeting_examples:
  "classify ''nothing'' ''nothing'' = GREETING \<and> classify ''they'' ''they'' = GREETING"
  by code_simp

lemma greeting_V1:
  "\<not> isExpenseMonthly lm \<Longrightarrow> \<not> isExpenseInsights lm \<Longrightarrow> \<not> isAttendance lm \<Longrightarrow>
   \<not> isAcademicV1 lm \<Longrightarrow> \<not> isAssignment lm \<Longrightarrow> \<not> isCalendarV1 lm \<Longrightarrow>
   \<not> isTimetableV1 lm \<Longrightarrow>
   includesStr lm ''hi'' \<or> includesStr lm ''hello'' \<or> includesStr lm ''hey'' \<Longrightarrow>
   classifyV1 lm = GREETING"
  by (auto simp add: classifyV1_def isGreetingV1_def)

text \<open>
  Claim C10: when none of the conditions before it holds (name query, the two expense
  conditions, attendance, academic, assignment, calendar, timetable), a lowercased message
  that contains the characters ``hi'', ``hello'' or ``hey'' anywhere, also inside a longer
  word, is a \<^verbatim>\<open>GREETING\<close>, not \<^verbatim>\<open>GUIDANCE\<close>; so are ``nothing'' and ``they''.
\<close>

theorem greeting_by_substring:
  "(\<not> isNameQuery lm \<and> \<not> isExpenseMonthly lm \<and> \<not> isExpenseInsights lm \<and> \<not> isAttendance lm \<and>
    \<not> isAcademic lm \<and> \<not> isAssignment lm \<and> \<not> isCalendar lm \<and> \<not> isTimetable lm \<and>
    (\<exists>a b. lm = a @ ''hi'' @ b \<or> lm = a @ ''hello'' @ b \<or> lm = a @ ''hey'' @ b)
    \<longrightarrow> classify lm sm = GREETING \<and> classify lm sm \<noteq> GUIDANCE)
   \<and> classify ''nothing'' ''nothing'' = GREETING
   \<and> classify ''they'' ''they'' = GREETING"
  using greeting_examples
  by (auto simp add: classify_def isGreeting_def includesStr_iff)

theorem greeting_by_substring_witness:
  "\<not> isNameQuery ''nothing'' \<and> \<not> isExpenseMonthly ''nothing'' \<and> \<not> isExpenseInsights ''nothing'' \<and>
   \<not> isAttendance ''nothing'' \<and> \<not> isAcademic ''nothing'' \<and> \<not> isAssignment ''nothing'' \<and>
   \<not> isCalendar ''nothing'' \<and> \<not> isTimetable ''nothing'' \<and>
   ''nothing'' = ''not'' @ ''hi'' @ ''ng'' \<and>
   classify ''nothing'' ''Nothing'' = GREETING"
proof -
  have h: "\<not> isNameQuery ''nothing'' \<and> \<not> isExpenseMonthly ''nothing'' \<and>
           \<not> isExpenseInsights ''nothing'' \<and> \<not> isAttendance ''nothing'' \<and>
           \<not> isAcademic ''nothing'' \<and> \<not> isAssignment ''nothing'' \<and>
           \<not> isCalendar ''nothing'' \<and> \<not> isTimetable ''nothing''"
    by code_simp
  have e: "''nothing'' = ''not'' @ ''hi'' @ ''ng''" by simp
  then have "\<exists>a b. ''nothing'' = a @ ''hi'' @ b \<or> ''nothing'' = a @ ''hello'' @ b \<or>
                   ''nothing'' = a @ ''hey'' @ b"
    by blast
  then show ?thesis
    using h e greeting_by_substring [of "''nothing''" "''Nothing''"] by blast
qed

section \<open>The weekly pattern\<close>

lemma weeklyLoop_0: "weeklyLoop c 0 = initialAnalysis"
  by (simp add: weeklyLoop_def)

lemma weeklyLoop_Suc: "weeklyLoop c (Suc n) = weeklyStep c (weeklyLoop c n) n"
  by (simp add: weeklyLoop_def)

lemma step_total: "totalClasses (weeklyStep c a i) = totalClasses a + c i"
  by (simp add: weeklyStep_def Let_def)

lemma step_days: "daysWithClasses (weeklyStep c a i) = daysWithClasses a + (if 0 < c i then 1 else 0)"
  by (simp add: weeklyStep_def Let_def)

lemma step_busiest:
  "busiestDay (weeklyStep c a i) =
     (if enat (c i) > count (busiestDay a) then \<lparr>day = Some i, count = enat (c i)\<rparr> else busiestDay a)"
  by (simp add: weeklyStep_def Let_def)

lemma step_lightest:
  "lightestDay (weeklyStep c a i) =
     (if enat (c i) < count (lightestDay a) \<and> 0 < c i then \<lparr>day = Some i, count = enat (c i)\<rparr>
      else lightestDay a)"
  by (simp add: weeklyStep_def Let_def)

lemma loop_total: "totalClasses (weeklyLoop c n) = (\<Sum>i<n. c i)"
  by (induction n) (simp_all add: weeklyLoop_0 weeklyLoop_Suc step_total initialAnalysis_def)

lemma days_set_Suc:
  "{i. i < Suc n \<and> 0 < c i} = (if 0 < c n then insert n {i. i < n \<and> 0 < (c i :: nat)} else {i. i < n \<and> 0 < c i})"
  by (auto simp: less_Suc_eq)

lemma loop_days: "daysWithClasses (weeklyLoop c n) = card {i. i < n \<and> 0 < c i}"
proof (induction n)
  case 0
  then show ?case by (simp add: weeklyLoop_0 initialAnalysis_def)
next
  case (Suc n)
  have fin: "finite {i. i < n \<and> 0 < c i}" by simp
  have notin: "n \<notin> {i. i < n \<and> 0 < c i}" by simp
  show ?case
    using Suc fin notin
    by (simp add: weeklyLoop_Suc step_days days_set_Suc del: neq0_conv)
qed

lemma loop_busiest:
  "((\<forall>i<n. c i = 0) \<and> busiestDay (weeklyLoop c n) = \<lparr>day = None, count = 0\<rparr>) \<or>
   (\<exists>b<n. busiestDay (weeklyLoop c n) = \<lparr>day = Some b, count = enat (c b)\<rparr> \<and> 0 < c b \<and>
           (\<forall>j<n. c j \<le> c b) \<and> (\<forall>j<b. c j < c b))"
proof (induction n)
  case 0
  then show ?case by (simp add: weeklyLoop_0 initialAnalysis_def)
next
  case (Suc n)
  from Suc show ?case
  proof
    assume h: "(\<forall>i<n. c i = 0) \<and> busiestDay (weeklyLoop c n) = \<lparr>day = None, count = 0\<rparr>"
    show ?thesis
    proof (cases "0 < c n")
      case True
      with h have "busiestDay (weeklyLoop c (Suc n)) = \<lparr>day = Some n, count = enat (c n)\<rparr>"
        by (simp add: weeklyLoop_Suc step_busiest zero_enat_def)
      moreover have "\<forall>j<Suc n. c j \<le> c n" using h by (auto simp: less_Suc_eq)
      moreover have "\<forall>j<n. c j < c n" using h True by auto
      ultimately show ?thesis using True by blast
    next
      case False
      with h have "busiestDay (weeklyLoop c (Suc n)) = \<lparr>day = None, count = 0\<rparr>"
        by (simp add: weeklyLoop_Suc step_busiest zero_enat_def)
      moreover have "\<forall>i<Suc n. c i = 0" using h False by (auto simp: less_Suc_eq)
      ultimately show ?thesis by blast
    qed
  next
    assume "\<exists>b<n. busiestDay (weeklyLoop c n) = \<lparr>day = Some b, count = enat (c b)\<rparr> \<and> 0 < c b \<and>
           (\<forall>j<n. c j \<le> c b) \<and> (\<forall>j<b. c j < c b)"
    then obtain b where b: "b < n" "busiestDay (weeklyLoop c n) = \<lparr>day = Some b, count = enat (c b)\<rparr>"
      "0 < c b" "\<forall>j<n. c j \<le> c b" "\<forall>j<b. c j < c b" by blast
    show ?thesis
    proof (cases "c b < c n")
      case True
      with b have "busiestDay (weeklyLoop c (Suc n)) = \<lparr>day = Some n, count = enat (c n)\<rparr>"
        by (simp add: weeklyLoop_Suc step_busiest)
      moreover have "\<forall>j<Suc n. c j \<le> c n" using b True by (auto simp: less_Suc_eq intro: order_trans le_less_trans less_imp_le)
      moreover have "\<forall>j<n. c j < c n" using b True by (auto intro: le_less_trans)
      moreover have "0 < c n" using b True by simp
      ultimately show ?thesis by blast
    next
      case False
      with b have "busiestDay (weeklyLoop c (Suc n)) = \<lparr>day = Some b, count = enat (c b)\<rparr>"
        by (simp add: weeklyLoop_Suc step_busiest)
      moreover have "\<forall>j<Suc n. c j \<le> c b" using b False by (auto simp: less_Suc_eq)
      moreover have "b < Suc n" using b by simp
      ultimately show ?thesis using b by blast
    qed
  qed
qed

lemma loop_lightest:
  "((\<forall>i<n. c i = 0) \<and> lightestDay (weeklyLoop c n) = \<lparr>day = None, count = \<infinity>\<rparr>) \<or>
   (\<exists>l<n. lightestDay (weeklyLoop c n) = \<lparr>day = Some l, count = enat (c l)\<rparr> \<and> 0 < c l \<and>
           (\<forall>j<n. 0 < c j \<longrightarrow> c l \<le> c j) \<and> (\<forall>j<l. 0 < c j \<longrightarrow> c l < c j))"
proof (induction n)
  case 0
  then show ?case by (simp add: weeklyLoop_0 initialAnalysis_def)
next
  case (Suc n)
  from Suc show ?case
  proof
    assume h: "(\<forall>i<n. c i = 0) \<and> lightestDay (weeklyLoop c n) = \<lparr>day = None, count = \<infinity>\<rparr>"
    show ?thesis
    proof (cases "0 < c n")
      case True
      with h have "lightestDay (weeklyLoop c (Suc n)) = \<lparr>day = Some n, count = enat (c n)\<rparr>"
        by (simp add: weeklyLoop_Suc step_lightest)
      moreover have "\<forall>j<Suc n. 0 < c j \<longrightarrow> c n \<le> c j" using h by (auto simp: less_Suc_eq)
      moreover have "\<forall>j<n. 0 < c j \<longrightarrow> c n < c j" using h by auto
      ultimately show ?thesis using True by blast
    next
      case False
      with h have "lightestDay (weeklyLoop c (Suc n)) = \<lparr>day = None, count = \<infinity>\<rparr>"
        by (simp add: weeklyLoop_Suc step_lightest)
      moreover have "\<forall>i<Suc n. c i = 0" using h False by (auto simp: less_Suc_eq)
      ultimately show ?thesis by blast
    qed
  next
    assume "\<exists>l<n. lightestDay (weeklyLoop c n) = \<lparr>day = Some l, count = enat (c l)\<rparr> \<and> 0 < c l \<and>
           (\<forall>j<n. 0 < c j \<longrightarrow> c l \<le> c j) \<and> (\<forall>j<l. 0 < c j \<longrightarrow> c l < c j)"
    then obtain l where l: "l < n" "lightestDay (weeklyLoop c n) = \<lparr>day = Some l, count = enat (c l)\<rparr>"
      "0 < c l" "\<forall>j<n. 0 < c j \<longrightarrow> c l \<le> c j" "\<forall>j<l. 0 < c j \<longrightarrow> c l < c j" by blast
    show ?thesis
    proof (cases "c n < c l \<and> 0 < c n")
      case True
      with l have "lightestDay (weeklyLoop c (Suc n)) = \<lparr>day = Some n, count = enat (c n)\<rparr>"
        by (simp add: weeklyLoop_Suc step_lightest)
      moreover have "\<forall>j<Suc n. 0 < c j \<longrightarrow> c n \<le> c j"
        using l True by (auto simp: less_Suc_eq intro: order_trans less_imp_le)
      moreover have "\<forall>j<n. 0 < c j \<longrightarrow> c n < c j" using l True by (auto intro: less_le_trans)
      ultimately show ?thesis using True by blast
    next
      case False
      with l have "lightestDay (weeklyLoop c (Suc n)) = \<lparr>day = Some l, count = enat (c l)\<rparr>"
        by (auto simp add: weeklyLoop_Suc step_lightest)
      moreover have "\<forall>j<Suc n. 0 < c j \<longrightarrow> c l \<le> c j" using l False by (auto simp: less_Suc_eq)
      moreover have "l < Suc n" using l by simp
      ultimately show ?thesis using l by blast
    qed
  qed
qed

lemma finish_total: "totalClasses (finishAnalysis a) = totalClasses a"
  by (simp add: finishAnalysis_def)

lemma finish_days: "daysWithClasses (finishAnalysis a) = daysWithClasses a"
  by (simp add: finishAnalysis_def)

lemma finish_busiest: "busiestDay (finishAnalysis a) = busiestDay a"
  by (simp add: finishAnalysis_def)

lemma finish_lightest:
  "lightestDay (finishAnalysis a) =
     (if count (lightestDay a) = \<infinity> then \<lparr>day = None, count = 0\<rparr> else lightestDay a)"
  by (simp add: finishAnalysis_def)

text \<open>
  Claim C4: for every timetable, with \<open>c i\<close> the number of classes of day \<open>i\<close>, the analysis
  of the seven days has \<open>totalClasses\<close> equal to the sum of the counts and \<open>daysWithClasses\<close>
  equal to the number of days with a class; when no day has a class, the busiest and the
  lightest day are both \<^verbatim>\<open>null\<close> (with count 0); otherwise the busiest day is a day of
  maximal count, the one of lowest index among them, and the lightest day is a day of
  minimal count among the days that have a class.
\<close>

theorem weekly_pattern_invariants:
  "totalClasses (analyzeWeeklyPattern env tt) = (\<Sum>i<7. classCountOf env tt i)
   \<and> daysWithClasses (analyzeWeeklyPattern env tt) = card {i. i < 7 \<and> 0 < classCountOf env tt i}
   \<and> ((\<forall>i<7. classCountOf env tt i = 0) \<longrightarrow>
        busiestDay (analyzeWeeklyPattern env tt) = \<lparr>day = None, count = 0\<rparr> \<and>
        lightestDay (analyzeWeeklyPattern env tt) = \<lparr>day = None, count = 0\<rparr>)
   \<and> ((\<exists>i<7. 0 < classCountOf env tt i) \<longrightarrow>
        (\<exists>b<7. busiestDay (analyzeWeeklyPattern env tt)
                  = \<lparr>day = Some b, count = enat (classCountOf env tt b)\<rparr> \<and>
                (\<forall>j<7. classCountOf env tt j \<le> classCountOf env tt b) \<and>
                (\<forall>j<b. classCountOf env tt j < classCountOf env tt b)) \<and>
        (\<exists>l<7. lightestDay (analyzeWeeklyPattern env tt)
                  = \<lparr>day = Some l, count = enat (classCountOf env tt l)\<rparr> \<and>
                0 < classCountOf env tt l \<and>
                (\<forall>j<7. 0 < classCountOf env tt j \<longrightarrow> classCountOf env tt l \<le> classCountOf env tt j) \<and>
                (\<forall>j<l. 0 < classCountOf env tt j \<longrightarrow> classCountOf env tt l < classCountOf env tt j)))"
proof (intro conjI impI)
  show "totalClasses (analyzeWeeklyPattern env tt) = (\<Sum>i<7. classCountOf env tt i)"
    by (simp add: analyzeWeeklyPattern_def finish_total loop_total)
  show "daysWithClasses (analyzeWeeklyPattern env tt) = card {i. i < 7 \<and> 0 < classCountOf env tt i}"
    by (simp add: analyzeWeeklyPattern_def finish_days loop_days)
next
  assume none: "\<forall>i<7. classCountOf env tt i = 0"
  from loop_busiest [of 7 "classCountOf env tt"] none
  show "busiestDay (analyzeWeeklyPattern env tt) = \<lparr>day = None, count = 0\<rparr>"
    by (auto simp add: analyzeWeeklyPattern_def finish_busiest)
  from loop_lightest [of 7 "classCountOf env tt"] none
  show "lightestDay (analyzeWeeklyPattern env tt) = \<lparr>day = None, count = 0\<rparr>"
    by (auto simp add: analyzeWeeklyPattern_def finish_lightest)
next
  assume some: "\<exists>i<7. 0 < classCountOf env tt i"
  from loop_busiest [of 7 "classCountOf env tt"] some
  show "\<exists>b<7. busiestDay (analyzeWeeklyPattern env tt)
                  = \<lparr>day = Some b, count = enat (classCountOf env tt b)\<rparr> \<and>
                (\<forall>j<7. classCountOf env tt j \<le> classCountOf env tt b) \<and>
                (\<forall>j<b. classCountOf env tt j < classCountOf env tt b)"
    by (auto simp add: analyzeWeeklyPattern_def finish_busiest)
  from loop_lightest [of 7 "classCountOf env tt"] some
  obtain l where l: "l < 7"
    "lightestDay (weeklyLoop (classCountOf env tt) 7)
       = \<lparr>day = Some l, count = enat (classCountOf env tt l)\<rparr>"
    "0 < classCountOf env tt l"
    "\<forall>j<7. 0 < classCountOf env tt j \<longrightarrow> classCountOf env tt l \<le> classCountOf env tt j"
    "\<forall>j<l. 0 < classCountOf env tt j \<longrightarrow> classCountOf env tt l < classCountOf env tt j"
    by auto
  then have "lightestDay (analyzeWeeklyPattern env tt)
       = \<lparr>day = Some l, count = enat (classCountOf env tt l)\<rparr>"
    by (simp add: analyzeWeeklyPattern_def finish_lightest)
  with l show "\<exists>l<7. lightestDay (analyzeWeeklyPattern env tt)
                  = \<lparr>day = Some l, count = enat (classCountOf env tt l)\<rparr> \<and>
                0 < classCountOf env tt l \<and>
                (\<forall>j<7. 0 < classCountOf env tt j \<longrightarrow> classCountOf env tt l \<le> classCountOf env tt j) \<and>
                (\<forall>j<l. 0 < classCountOf env tt j \<longrightarrow> classCountOf env tt l < classCountOf env tt j)"
    by blast
qed

lemma sampleWeek_counts:
  "classCountOf sampleEnv sampleWeek 0 = 1 \<and> classCountOf sampleEnv sampleWeek 2 = 2"
  by code_simp

lemma sampleWeek_analysis:
  "analyzeWeeklyPattern sampleEnv sampleWeek =
     \<lparr>busiestDay = \<lparr>day = Some 2, count = 2\<rparr>, lightestDay = \<lparr>day = Some 0, count = 1\<rparr>,
      totalClasses = 6, daysWithClasses = 4\<rparr>"
  by code_simp

lemma empty_timetable_counts: "classCountOf env [] i = 0"
  by (simp add: classCountOf_def getClassesForDay_def)

theorem weekly_pattern_invariants_witness:
  "0 < classCountOf sampleEnv sampleWeek 0
   \<and> totalClasses (analyzeWeeklyPattern sampleEnv sampleWeek) = 6
   \<and> (\<Sum>i<7. classCountOf sampleEnv sampleWeek i) = 6
   \<and> daysWithClasses (analyzeWeeklyPattern sampleEnv sampleWeek) = 4
   \<and> busiestDay (analyzeWeeklyPattern sampleEnv sampleWeek) = \<lparr>day = Some 2, count = 2\<rparr>
   \<and> lightestDay (analyzeWeeklyPattern sampleEnv sampleWeek) = \<lparr>day = Some 0, count = 1\<rparr>
   \<and> classCountOf sampleEnv [] 0 = 0
   \<and> busiestDay (analyzeWeeklyPattern sampleEnv []) = \<lparr>day = None, count = 0\<rparr>
   \<and> lightestDay (analyzeWeeklyPattern sampleEnv []) = \<lparr>day = None, count = 0\<rparr>"
proof -
  have pos: "0 < classCountOf sampleEnv sampleWeek 0" using sampleWeek_counts by simp
  then have ex: "\<exists>i<7. 0 < classCountOf sampleEnv sampleWeek i" by (intro exI [of _ 0]) simp
  have week: "totalClasses (analyzeWeeklyPattern sampleEnv sampleWeek) = 6
     \<and> (\<Sum>i<7. classCountOf sampleEnv sampleWeek i) = 6
     \<and> daysWithClasses (analyzeWeeklyPattern sampleEnv sampleWeek) = 4
     \<and> busiestDay (analyzeWeeklyPattern sampleEnv sampleWeek) = \<lparr>day = Some 2, count = 2\<rparr>
     \<and> lightestDay (analyzeWeeklyPattern sampleEnv sampleWeek) = \<lparr>day = Some 0, count = 1\<rparr>"
    using ex weekly_pattern_invariants [of sampleEnv sampleWeek] sampleWeek_analysis
    by simp
  have none: "\<forall>i<7. classCountOf sampleEnv [] i = 0" by (simp add: empty_timetable_counts)
  have free: "busiestDay (analyzeWeeklyPattern sampleEnv []) = \<lparr>day = None, count = 0\<rparr>
     \<and> lightestDay (analyzeWeeklyPattern sampleEnv []) = \<lparr>day = None, count = 0\<rparr>"
    using none weekly_pattern_invariants [of sampleEnv "[]"] by blast
  show ?thesis using pos week free empty_timetable_counts [of sampleEnv 0] by blast
qed

section \<open>Attendance\<close>

lemma neededFor_nonneg: "0 \<le> neededFor h a"
  by (simp add: neededFor_def)

text \<open>
  Up to \<open>2\<^sup>5\<^sup>1\<close> classes held, the product by 0.75 is a double and the number needed is the
  exact one.
\<close>

lemma neededFor_exact:
  assumes "0 < h" "h \<le> 2 ^ 51" "0 \<le> a"
  shows "neededFor h a = max 0 (\<lceil>(of_int h :: rat) * (3 / 4)\<rceil> - a)"
proof -
  define c where "c = \<lceil>(of_int h :: rat) * 0.75\<rceil>"
  have prod: "roundDouble (of_int h * 0.75) = of_int h * 0.75"
    using assms by (intro roundDouble_three_quarters) simp
  have "(of_int h :: rat) * 0.75 \<le> of_int h" using assms(1) by simp
  then have "c \<le> h" unfolding c_def by (simp add: ceiling_le_iff)
  then have cle: "c \<le> 2 ^ 51" using assms(2) by simp
  have nd: "neededFor h a = max 0 (roundCount (c - a))"
    by (simp only: neededFor_def prod c_def)
  have "max 0 (roundCount (c - a)) = max 0 (c - a)"
  proof (cases "0 \<le> c - a")
    case True
    then have "\<bar>c - a\<bar> < 2 ^ 53" using cle assms(3) by simp
    then show ?thesis by (simp add: roundCount_exact)
  next
    case False
    then have "roundCount (c - a) \<le> 0" by (intro roundCount_nonpos) simp
    then show ?thesis using False by simp
  qed
  then show ?thesis using nd by (simp add: c_def)
qed

lemma neededFor_consistent:
  assumes "0 < h" "h \<le> 2 ^ 51" "0 \<le> a" and "100 * (of_int a :: rat) / of_int h < 75"
  shows "0 < neededFor h a"
proof -
  have hpos: "(0::rat) < of_int h" using assms(1) by simp
  from assms(4) hpos have "100 * (of_int a :: rat) < 75 * of_int h"
    by (simp add: pos_divide_less_eq)
  then have "(of_int a :: rat) < of_int h * (3 / 4)" by simp
  also have "\<dots> \<le> of_int \<lceil>(of_int h :: rat) * (3 / 4)\<rceil>" by (rule le_of_int_ceiling)
  finally have "a < \<lceil>(of_int h :: rat) * (3 / 4)\<rceil>" by simp
  then show ?thesis using neededFor_exact [OF assms(1-3)] by simp
qed

text \<open>
  Beyond that the product is rounded: with 9007199254740998 classes held and none attended
  the double product is 6755399441055748, the exact one 6755399441055748.5.
\<close>

lemma neededFor_rounded:
  "neededFor 9007199254740998 0 = 6755399441055748
   \<and> max 0 (\<lceil>(of_int 9007199254740998 :: rat) * (3 / 4)\<rceil> - 0) = (6755399441055749 :: int)"
  by code_simp

lemma parts_below:
  assumes "totalHeld att = Some h" "totalAttended att = Some a" "percentage att = Some p" "p < 75"
  shows "overallParts env att =
           [attendanceSummaryLine env att, belowThreshold] @
           (if 0 < neededFor h a then [neededSentence env (neededFor h a)] else []) @
           (if (case subjects att of None \<Rightarrow> False | Some s \<Rightarrow> 0 < length s) then [breakdownHint] else [])"
  using assms by (simp add: overallParts_def ltNum_def neededClasses_def)

lemma parts_acceptable:
  assumes "percentage att = Some p" "75 \<le> p" "p < 85"
  shows "overallParts env att = [attendanceSummaryLine env att, acceptableTone]"
  using assms by (simp add: overallParts_def ltNum_def)

lemma parts_good:
  assumes "percentage att = Some p" "85 \<le> p"
  shows "overallParts env att = [attendanceSummaryLine env att, goodTone]"
  using assms by (simp add: overallParts_def ltNum_def)

lemma needed_not_summary: "neededSentence env n \<noteq> attendanceSummaryLine env att"
  by (simp add: neededSentence_def attendanceSummaryLine_def)

lemma needed_not_tone: "neededSentence env n \<noteq> acceptableTone \<and> neededSentence env n \<noteq> goodTone"
  by (simp add: neededSentence_def acceptableTone_def goodTone_def)

lemma no_needed_above:
  assumes "percentage att = Some p" "75 \<le> p"
  shows "neededSentence env n \<notin> set (overallParts env att)"
proof (cases "p < 85")
  case True
  then show ?thesis
    using assms parts_acceptable [of att p env] needed_not_summary [of env n att] needed_not_tone [of env n]
    by simp
next
  case False
  then show ?thesis
    using assms parts_good [of att p env] needed_not_summary [of env n att] needed_not_tone [of env n]
    by simp
qed

lemma overall_branch:
  assumes "totalHeld att = Some h" "0 < h" "\<not> isPerSubject lm" "\<not> isWhichSubject lm"
  shows "attendanceInsights env lm att userName =
           Reply (addressMaybe env (join '' '' (overallParts env att)) userName)"
  using assms by (simp add: attendanceInsights_def overallReply_def)

lemma attendance_example:
  "classifyAndRespond sampleEnv
     ((bareRequest ''attendance'')
        \<lparr>attendance := Some \<lparr>totalHeld = Some 40, totalAttended = Some 28, percentage = Some 70,
                              subjects = None\<rparr>\<rparr>)
   = \<lparr>status = 200, intentLabel = ATTENDANCE_INSIGHTS,
      reply = ''Your attendance is at 70% (28 out of 40 classes). This is below the 75% threshold '' @
              emDash @ '' something to be mindful of. You'd need to attend 2 more classes to reach 75%.'',
      metadata = Some \<lparr>timestamp = ''2025-01-08T09:00:00.000Z'', metaUserName = ''there'',
        dataUsed = \<lparr>hasExpenses = False, hasAttendance = True, hasTimetable = False,
                    hasAssignments = False, hasCalendar = False, hasCgpa = False\<rparr>\<rparr>,
      errorDetail = None\<rparr>"
  by code_simp

text \<open>
  Claim C2, as the specification states it, fails: with 40 classes held, 30 attended and
  a reported percentage of 70, the percentage is below 75 and no class is needed; the reply
  flags the threshold and reports no number of classes.
\<close>

theorem below_threshold_without_needed_figure:
  "neededFor 40 30 = 0
   \<and> reply (classifyAndRespond sampleEnv
       ((bareRequest ''attendance'')
          \<lparr>attendance := Some \<lparr>totalHeld = Some 40, totalAttended = Some 30, percentage = Some 70,
                                subjects = None\<rparr>\<rparr>))
     = ''Your attendance is at 70% (30 out of 40 classes). This is below the 75% threshold '' @
       emDash @ '' something to be mindful of.''"
  by code_simp

text \<open>
  Claim C2, amended: for an attendance summary with \<open>h > 0\<close> classes held, \<open>a\<close> attended and
  percentage \<open>p\<close>, the number of classes needed is never negative; for up to \<open>2\<^sup>5\<^sup>1\<close> classes
  held and \<open>a \<ge> 0\<close> it is \<open>max 0 (\<lceil>0.75 h\<rceil> - a)\<close> (beyond, the product \<^verbatim>\<open>held * 0.75\<close> is
  rounded before the ceiling is taken). Below 75 the overall reply is the summary line, the
  below-threshold sentence, the sentence with the number needed when that number is
  positive (within these bounds it is whenever \<open>p = 100 a / h\<close>), and a hint when subjects
  are present. From 75 to below 85 it is the summary and the acceptable tone, from 85 on
  the summary and the good tone, and at or above 75 no needed-classes sentence is part of
  it. For a message that asks for no subject breakdown this is the reply of the branch. For
  \<^verbatim>\<open>{totalHeld: 40, totalAttended: 28, percentage: 70}\<close> and the message ``attendance'' the
  intent is \<^verbatim>\<open>ATTENDANCE_INSIGHTS\<close> and the reply states 70% (28 out of 40), flags the
  threshold and reports 2 more classes.
\<close>

theorem attendance_bands:
  "(totalHeld att = Some h \<and> 0 < h \<and> totalAttended att = Some a \<and> percentage att = Some p \<longrightarrow>
      0 \<le> neededFor h a
    \<and> (h \<le> 2 ^ 51 \<and> 0 \<le> a \<longrightarrow> neededFor h a = max 0 (\<lceil>(of_int h :: rat) * (3 / 4)\<rceil> - a))
    \<and> (p < 75 \<longrightarrow>
         overallParts env att =
           [attendanceSummaryLine env att, belowThreshold] @
           (if 0 < neededFor h a then [neededSentence env (neededFor h a)] else []) @
           (if (case subjects att of None \<Rightarrow> False | Some s \<Rightarrow> 0 < length s)
            then [breakdownHint] else []))
    \<and> (p < 75 \<and> p = 100 * of_int a / of_int h \<and> h \<le> 2 ^ 51 \<and> 0 \<le> a \<longrightarrow> 0 < neededFor h a)
    \<and> (75 \<le> p \<and> p < 85 \<longrightarrow> overallParts env att = [attendanceSummaryLine env att, acceptableTone])
    \<and> (85 \<le> p \<longrightarrow> overallParts env att = [attendanceSummaryLine env att, goodTone])
    \<and> (75 \<le> p \<longrightarrow> neededSentence env n \<notin> set (overallParts env att))
    \<and> (\<not> isPerSubject lm \<and> \<not> isWhichSubject lm \<longrightarrow>
         attendanceInsights env lm att userName =
           Reply (addressMaybe env (join '' '' (overallParts env att)) userName)))
   \<and> classifyAndRespond sampleEnv
       ((bareRequest ''attendance'')
          \<lparr>attendance := Some \<lparr>totalHeld = Some 40, totalAttended = Some 28, percentage = Some 70,
                                subjects = None\<rparr>\<rparr>)
     = \<lparr>status = 200, intentLabel = ATTENDANCE_INSIGHTS,
        reply = ''Your attendance is at 70% (28 out of 40 classes). This is below the 75% threshold '' @
                emDash @ '' something to be mindful of. You'd need to attend 2 more classes to reach 75%.'',
        metadata = Some \<lparr>timestamp = ''2025-01-08T09:00:00.000Z'', metaUserName = ''there'',
          dataUsed = \<lparr>hasExpenses = False, hasAttendance = True, hasTimetable = False,
                      hasAssignments = False, hasCalendar = False, hasCgpa = False\<rparr>\<rparr>,
        errorDetail = None\<rparr>"
proof (intro conjI impI)
  show "classifyAndRespond sampleEnv
       ((bareRequest ''attendance'')
          \<lparr>attendance := Some \<lparr>totalHeld = Some 40, totalAttended = Some 28, percentage = Some 70,
                                subjects = None\<rparr>\<rparr>)
     = \<lparr>status = 200, intentLabel = ATTENDANCE_INSIGHTS,
        reply = ''Your attendance is at 70% (28 out of 40 classes). This is below the 75% threshold '' @
                emDash @ '' something to be mindful of. You'd need to attend 2 more classes to reach 75%.'',
        metadata = Some \<lparr>timestamp = ''2025-01-08T09:00:00.000Z'', metaUserName = ''there'',
          dataUsed = \<lparr>hasExpenses = False, hasAttendance = True, hasTimetable = False,
                      hasAssignments = False, hasCalendar = False, hasCgpa = False\<rparr>\<rparr>,
        errorDetail = None\<rparr>"
    by (rule attendance_example)
next
  assume h: "totalHeld att = Some h \<and> 0 < h \<and> totalAttended att = Some a \<and> percentage att = Some p"
  show "0 \<le> neededFor h a" by (rule neededFor_nonneg)
  show "neededFor h a = max 0 (\<lceil>(of_int h :: rat) * (3 / 4)\<rceil> - a)" if "h \<le> 2 ^ 51 \<and> 0 \<le> a"
    using h that neededFor_exact [of h a] by blast
  show "overallParts env att =
           [attendanceSummaryLine env att, belowThreshold] @
           (if 0 < neededFor h a then [neededSentence env (neededFor h a)] else []) @
           (if (case subjects att of None \<Rightarrow> False | Some s \<Rightarrow> 0 < length s)
            then [breakdownHint] else [])" if "p < 75"
    using h that parts_below [of att h a p env] by blast
  show "0 < neededFor h a" if "p < 75 \<and> p = 100 * of_int a / of_int h \<and> h \<le> 2 ^ 51 \<and> 0 \<le> a"
    using h that neededFor_consistent [of h a] by blast
  show "overallParts env att = [attendanceSummaryLine env att, acceptableTone]" if "75 \<le> p \<and> p < 85"
    using h that parts_acceptable [of att p env] by blast
  show "overallParts env att = [attendanceSummaryLine env att, goodTone]" if "85 \<le> p"
    using h that parts_good [of att p env] by blast
  show "neededSentence env n \<notin> set (overallParts env att)" if "75 \<le> p"
    using h that no_needed_above [of att p env n] by blast
  show "attendanceInsights env lm att userName =
           Reply (addressMaybe env (join '' '' (overallParts env att)) userName)"
    if "\<not> isPerSubject lm \<and> \<not> isWhichSubject lm"
    using h that overall_branch [of att h lm env userName] by blast
qed

theorem attendance_bands_witness:
  "totalHeld \<lparr>totalHeld = Some 40, totalAttended = Some 28, percentage = Some 70, subjects = None\<rparr>
     = Some 40
   \<and> (0::int) < 40 \<and> (40::int) \<le> 2 ^ 51 \<and> (0::int) \<le> 28
   \<and> (70::rat) < 75 \<and> (70::rat) = 100 * of_int 28 / of_int 40
   \<and> neededFor 40 28 = max 0 (\<lceil>(of_int 40 :: rat) * (3 / 4)\<rceil> - 28)
   \<and> 0 < neededFor 40 28
   \<and> overallParts sampleEnv
        \<lparr>totalHeld = Some 40, totalAttended = Some 28, percentage = Some 70, subjects = None\<rparr>
      = [attendanceSummaryLine sampleEnv
           \<lparr>totalHeld = Some 40, totalAttended = Some 28, percentage = Some 70, subjects = None\<rparr>,
         belowThreshold, neededSentence sampleEnv (neededFor 40 28)]
   \<and> neededFor 40 28 = 2
   \<and> attendanceSummaryLine sampleEnv
        \<lparr>totalHeld = Some 40, totalAttended = Some 28, percentage = Some 70, subjects = None\<rparr>
      = ''Your attendance is at 70% (28 out of 40 classes).''
   \<and> neededSentence sampleEnv 2 = ''You'd need to attend 2 more classes to reach 75%.''
   \<and> \<not> isPerSubject ''attendance'' \<and> \<not> isWhichSubject ''attendance''
   \<and> attendanceInsights sampleEnv ''attendance''
        \<lparr>totalHeld = Some 40, totalAttended = Some 28, percentage = Some 70, subjects = None\<rparr>
        ''there''
      = Reply (addressMaybe sampleEnv
          (join '' '' (overallParts sampleEnv
             \<lparr>totalHeld = Some 40, totalAttended = Some 28, percentage = Some 70, subjects = None\<rparr>))
          ''there'')
   \<and> (75::rat) \<le> 80 \<and> (80::rat) < 85
   \<and> overallParts sampleEnv
        \<lparr>totalHeld = Some 40, totalAttended = Some 32, percentage = Some 80, subjects = None\<rparr>
      = [attendanceSummaryLine sampleEnv
           \<lparr>totalHeld = Some 40, totalAttended = Some 32, percentage = Some 80, subjects = None\<rparr>,
         acceptableTone]
   \<and> neededSentence sampleEnv 2 \<notin> set (overallParts sampleEnv
        \<lparr>totalHeld = Some 40, totalAttended = Some 32, percentage = Some 80, subjects = None\<rparr>)
   \<and> (85::rat) \<le> 90
   \<and> overallParts sampleEnv
        \<lparr>totalHeld = Some 40, totalAttended = Some 36, percentage = Some 90, subjects = None\<rparr>
      = [attendanceSummaryLine sampleEnv
           \<lparr>totalHeld = Some 40, totalAttended = Some 36, percentage = Some 90, subjects = None\<rparr>,
         goodTone]"
proof -
  let ?att = "\<lparr>totalHeld = Some 40, totalAttended = Some 28, percentage = Some 70, subjects = None\<rparr>"
  let ?att80 = "\<lparr>totalHeld = Some 40, totalAttended = Some 32, percentage = Some 80, subjects = None\<rparr>"
  let ?att90 = "\<lparr>totalHeld = Some 40, totalAttended = Some 36, percentage = Some 90, subjects = None\<rparr>"
  have hyp: "totalHeld ?att = Some 40 \<and> (0::int) < 40 \<and> totalAttended ?att = Some 28 \<and>
             percentage ?att = Some 70"
    by simp
  have num: "(70::rat) < 75 \<and> (70::rat) = 100 * of_int 28 / of_int 40" by simp
  have bnd: "(40::int) \<le> 2 ^ 51 \<and> (0::int) \<le> 28" by simp
  have sub: "\<not> isPerSubject ''attendance'' \<and> \<not> isWhichSubject ''attendance''" by code_simp
  note inst = attendance_bands [of ?att 40 28 70 sampleEnv 0 "''attendance''" "''there''"]
  have pos: "0 < neededFor 40 28" using inst hyp num bnd by blast
  have frm: "neededFor 40 28 = max 0 (\<lceil>(of_int 40 :: rat) * (3 / 4)\<rceil> - 28)"
    using inst hyp bnd by blast
  have "overallParts sampleEnv ?att =
           [attendanceSummaryLine sampleEnv ?att, belowThreshold] @
           (if 0 < neededFor 40 28 then [neededSentence sampleEnv (neededFor 40 28)] else []) @
           (if (case subjects ?att of None \<Rightarrow> False | Some s \<Rightarrow> 0 < length s)
            then [breakdownHint] else [])"
    using inst hyp num by blast
  with pos have parts: "overallParts sampleEnv ?att =
      [attendanceSummaryLine sampleEnv ?att, belowThreshold, neededSentence sampleEnv (neededFor 40 28)]"
    by simp
  have branch: "attendanceInsights sampleEnv ''attendance'' ?att ''there''
      = Reply (addressMaybe sampleEnv (join '' '' (overallParts sampleEnv ?att)) ''there'')"
    using inst hyp sub by blast
  have ev: "neededFor 40 28 = 2
     \<and> attendanceSummaryLine sampleEnv ?att = ''Your attendance is at 70% (28 out of 40 classes).''
     \<and> neededSentence sampleEnv 2 = ''You'd need to attend 2 more classes to reach 75%.''"
    by code_simp
  have hyp80: "totalHeld ?att80 = Some 40 \<and> (0::int) < 40 \<and> totalAttended ?att80 = Some 32 \<and>
               percentage ?att80 = Some 80"
    by simp
  have num80: "(75::rat) \<le> 80 \<and> (80::rat) < 85" by simp
  note inst80 = attendance_bands [of ?att80 40 32 80 sampleEnv 2 "''attendance''" "''there''"]
  have parts80: "overallParts sampleEnv ?att80 = [attendanceSummaryLine sampleEnv ?att80, acceptableTone]"
    using inst80 hyp80 num80 by blast
  have none80: "neededSentence sampleEnv 2 \<notin> set (overallParts sampleEnv ?att80)"
    using inst80 hyp80 num80 by blast
  have hyp90: "totalHeld ?att90 = Some 40 \<and> (0::int) < 40 \<and> totalAttended ?att90 = Some 36 \<and>
               percentage ?att90 = Some 90"
    by simp
  have num90: "(85::rat) \<le> 90" by simp
  note inst90 = attendance_bands [of ?att90 40 36 90 sampleEnv 2 "''attendance''" "''there''"]
  have parts90: "overallParts sampleEnv ?att90 = [attendanceSummaryLine sampleEnv ?att90, goodTone]"
    using inst90 hyp90 num90 by blast
  show ?thesis
    using hyp num bnd frm pos parts ev sub branch num80 parts80 none80 num90 parts90 by blast
qed

section \<open>Assignment windowing\<close>

lemma ceiling_div_neg: "\<lceil>(of_int a :: rat) / of_int b\<rceil> = - ((- a) div b)"
proof -
  have "(of_int a :: rat) / of_int b = - (of_int (- a) / of_int b)" by simp
  then have "\<lceil>(of_int a :: rat) / of_int b\<rceil> = - \<lfloor>(of_int (- a) :: rat) / of_int b\<rfloor>"
    by (simp only: ceiling_def minus_minus)
  then show ?thesis by (simp only: floor_divide_of_int_eq)
qed

lemma daysBetween_div: "daysBetween now due = - ((now - due) div 86400000)"
  using ceiling_div_neg [of "due - now" 86400000]
  by (simp add: daysBetween_def msPerDay_def)

text \<open>The number of days is \<open>n\<close> when the due date is more than \<open>n - 1\<close> and at most \<open>n\<close> days away.\<close>

lemma daysBetween_iff:
  "daysBetween now due = n \<longleftrightarrow> (n - 1) * 86400000 < due - now \<and> due - now \<le> n * 86400000"
proof -
  define q where "q = (now - due) div 86400000"
  define r where "r = (now - due) mod 86400000"
  have eq: "now - due = q * 86400000 + r" by (simp add: q_def r_def)
  have r: "0 \<le> r \<and> r < 86400000" by (simp add: r_def)
  have "daysBetween now due = - q" by (simp add: daysBetween_div q_def)
  then show ?thesis using eq r by auto
qed

text \<open>
  It is the difference of the day numbers (UTC) of the due date and of \<open>now\<close>, and one more
  when the time of day of the due date is later than that of \<open>now\<close>.
\<close>

lemma daysBetween_calendar:
  "daysBetween now due =
     due div 86400000 - now div 86400000 + (if now mod 86400000 < due mod 86400000 then 1 else 0)"
proof -
  define qd where "qd = due div 86400000"
  define rd where "rd = due mod 86400000"
  define qn where "qn = now div 86400000"
  define rn where "rn = now mod 86400000"
  have d: "due = qd * 86400000 + rd" by (simp add: qd_def rd_def)
  have n: "now = qn * 86400000 + rn" by (simp add: qn_def rn_def)
  have b: "0 \<le> rd \<and> rd < 86400000 \<and> 0 \<le> rn \<and> rn < 86400000" by (simp add: rd_def rn_def)
  have "daysBetween now due = qd - qn + (if rn < rd then 1 else 0)"
    unfolding daysBetween_iff using d n b by auto
  then show ?thesis by (simp add: qd_def qn_def rd_def rn_def)
qed

lemma daysBetween_midnight:
  assumes "due mod 86400000 = 0"
  shows "daysBetween now due = due div 86400000 - now div 86400000"
proof -
  have "\<not> now mod 86400000 < due mod 86400000" using assms by simp
  then show ?thesis by (simp add: daysBetween_calendar)
qed

text \<open>The week filter keeps a key when its date parses and lies in the window.\<close>

lemma dueThisWeek_iff:
  "dueThisWeek env d \<longleftrightarrow>
     (\<exists>due. parseDate env d = Some due \<and>
        0 \<le> daysBetween (nowMs env) due \<and> daysBetween (nowMs env) due \<le> 7)"
  by (cases "parseDate env d") (simp_all add: dueThisWeek_def daysUntil_def)

lemma daysBetween_window:
  "0 \<le> daysBetween now due \<and> daysBetween now due \<le> 7 \<longleftrightarrow>
     - 86400000 < due - now \<and> due - now \<le> 7 * 86400000"
proof -
  define n where "n = daysBetween now due"
  have "(n - 1) * 86400000 < due - now \<and> due - now \<le> n * 86400000"
    using daysBetween_iff [of now due n] by (simp add: n_def)
  then have "0 \<le> n \<and> n \<le> 7 \<longleftrightarrow> - 86400000 < due - now \<and> due - now \<le> 7 * 86400000"
    by auto
  then show ?thesis by (simp add: n_def)
qed

lemma dueThisWeek_window:
  "dueThisWeek env d \<longleftrightarrow>
     (\<exists>due. parseDate env d = Some due \<and>
        - 86400000 < due - nowMs env \<and> due - nowMs env \<le> 7 * 86400000)"
  unfolding dueThisWeek_iff using daysBetween_window by blast

lemma week_reply:
  assumes "assignmentCountOf asg \<noteq> 0" "includesStr lm ''week''"
  shows "assignmentPlanning env lm asg userName =
     (if filter (dueThisWeek env) (sort (map fst asg)) \<noteq> [] then
        Reply (addressMaybe env
          (join '' '' (''Here's what's due this week:'' #
             map (weekLine env asg) (filter (dueThisWeek env) (sort (map fst asg))))) userName)
      else Reply (addressMaybe env (''Nothing due this week '' @ emDash @ '' a good time to get ahead.'') userName))"
  using assms by (simp add: assignmentPlanning_def Let_def)

lemma week_member:
  "d \<in> set (filter (dueThisWeek env) (sort (map fst asg))) \<longleftrightarrow> d \<in> fst ` set asg \<and> dueThisWeek env d"
  by auto

lemma weekLine_days:
  assumes "parseDate env d = Some due" "map_of asg d = Some c"
  shows "weekLine env asg d =
     bullet @ '' '' @ d @ '': '' @ intToString env c @ '' assignment'' @ plural c @
     '' (in '' @ intToString env (daysBetween (nowMs env) due) @ '' days)''"
  using assms
  by (simp add: weekLine_def countToString_def optIntToString_def pluralOpt_def daysToString_def
      daysUntil_def)

lemma nearest_reply:
  assumes "assignmentCountOf asg \<noteq> 0" "\<not> includesStr lm ''week''" "\<not> includesStr lm ''this week''"
    "sort (map fst asg) = d # ds" "parseDate env d = Some due" "map_of asg d = Some c"
  shows "assignmentPlanning env lm asg userName =
     (if includesStr lm ''next'' \<or> includesStr lm ''upcoming'' then
        Reply (addressMaybe env
          (''Your next deadline is '' @ d @ '' '' @ emDash @ '' '' @ intToString env c @
           '' assignment'' @ plural c @ '' due in '' @
           intToString env (daysBetween (nowMs env) due) @ '' days.'') userName)
      else
        Reply (addressMaybe env
          (''You have '' @ intToString env (assignmentCountOf asg) @ '' pending assignment'' @
           plural (assignmentCountOf asg) @ ''. The nearest is on '' @ d @ '' ('' @
           intToString env c @ '' assignment'' @ plural c @ '', '' @
           intToString env (daysBetween (nowMs env) due) @ '' days).'') userName))"
  using assms
  by (simp add: assignmentPlanning_def Let_def countToString_def optIntToString_def pluralOpt_def
      daysToString_def daysUntil_def optStringToString_def)

text \<open>
  Claim C8, as the specification states it, fails: the number of days is counted in
  elapsed time, not in calendar days. At 09:00 UTC on 2025-01-08 a deadline at 10:00 UTC on
  2025-01-09, the next calendar day, is 25 hours away and counts 2 days, and the reply says
  ``due in 2 days''; two hours later the same deadline is 23 hours away and counts 1 day.
\<close>

theorem next_day_deadline_counts_two_days:
  "daysBetween 1736326800000 1736416800000 = 2
   \<and> (1736416800000 :: int) div 86400000 - 1736326800000 div 86400000 = 1
   \<and> daysBetween (1736326800000 + 7200000) 1736416800000 = 1
   \<and> nowMs sampleEnv = 1736326800000
   \<and> parseDate sampleEnv ''2025-01-09T10:00:00Z'' = Some 1736416800000
   \<and> reply (classifyAndRespond sampleEnv
        ((bareRequest ''next deadline'') \<lparr>assignments := Some [(''2025-01-09T10:00:00Z'', 1)]\<rparr>))
      = ''Your next deadline is 2025-01-09T10:00:00Z '' @ emDash @ '' 1 assignment due in 2 days.''"
  by code_simp

text \<open>
  Claim C8, amended: the days until a due date are \<open>\<lceil>(dueDate - now) / 1 day\<rceil>\<close> on elapsed
  milliseconds, the number \<open>n\<close> with \<open>n - 1\<close> days \<open>< dueDate - now \<le> n\<close> days. That is the
  difference between the day numbers (UTC) of the due date and of \<open>now\<close>, plus one when the
  time of day of the due date is later than that of \<open>now\<close>: the calendar-day difference for
  a due date at midnight UTC (an ISO date without a time) whatever the hour of \<open>now\<close>, and a
  number that depends on the hour otherwise. A week query lists a key of the bundle if and
  only if its date parses and its number of days is between 0 and 7, that is, if and only if
  the due date is less than one day behind and at most seven days ahead; a key that does
  not parse is never listed. This number is the one every assignment reply prints.
\<close>

theorem days_until_due:
  "(daysBetween now due = n \<longleftrightarrow> (n - 1) * 86400000 < due - now \<and> due - now \<le> n * 86400000)
   \<and> daysBetween now due =
        due div 86400000 - now div 86400000 + (if now mod 86400000 < due mod 86400000 then 1 else 0)
   \<and> (due mod 86400000 = 0 \<longrightarrow> daysBetween now due = due div 86400000 - now div 86400000)
   \<and> (dueThisWeek env d \<longleftrightarrow>
        (\<exists>t. parseDate env d = Some t \<and>
           0 \<le> daysBetween (nowMs env) t \<and> daysBetween (nowMs env) t \<le> 7))
   \<and> (dueThisWeek env d \<longleftrightarrow>
        (\<exists>t. parseDate env d = Some t \<and>
           - 86400000 < t - nowMs env \<and> t - nowMs env \<le> 7 * 86400000))
   \<and> (d \<in> set (filter (dueThisWeek env) (sort (map fst asg))) \<longleftrightarrow>
        d \<in> fst ` set asg \<and> dueThisWeek env d)
   \<and> (assignmentCountOf asg \<noteq> 0 \<and> includesStr lm ''week'' \<longrightarrow>
        assignmentPlanning env lm asg userName =
          (if filter (dueThisWeek env) (sort (map fst asg)) \<noteq> [] then
             Reply (addressMaybe env
               (join '' '' (''Here's what's due this week:'' #
                  map (weekLine env asg) (filter (dueThisWeek env) (sort (map fst asg))))) userName)
           else Reply (addressMaybe env
               (''Nothing due this week '' @ emDash @ '' a good time to get ahead.'') userName)))
   \<and> (parseDate env d = Some due \<and> map_of asg d = Some c \<longrightarrow>
        weekLine env asg d =
          bullet @ '' '' @ d @ '': '' @ intToString env c @ '' assignment'' @ plural c @
          '' (in '' @ intToString env (daysBetween (nowMs env) due) @ '' days)'')
   \<and> (assignmentCountOf asg \<noteq> 0 \<and> \<not> includesStr lm ''week'' \<and> \<not> includesStr lm ''this week'' \<and>
        sort (map fst asg) = d # ds \<and> parseDate env d = Some due \<and> map_of asg d = Some c \<longrightarrow>
        assignmentPlanning env lm asg userName =
          (if includesStr lm ''next'' \<or> includesStr lm ''upcoming'' then
             Reply (addressMaybe env
               (''Your next deadline is '' @ d @ '' '' @ emDash @ '' '' @ intToString env c @
                '' assignment'' @ plural c @ '' due in '' @
                intToString env (daysBetween (nowMs env) due) @ '' days.'') userName)
           else
             Reply (addressMaybe env
               (''You have '' @ intToString env (assignmentCountOf asg) @ '' pending assignment'' @
                plural (assignmentCountOf asg) @ ''. The nearest is on '' @ d @ '' ('' @
                intToString env c @ '' assignment'' @ plural c @ '', '' @
                intToString env (daysBetween (nowMs env) due) @ '' days).'') userName)))"
proof (intro conjI impI)
  show "daysBetween now due = n \<longleftrightarrow> (n - 1) * 86400000 < due - now \<and> due - now \<le> n * 86400000"
    by (rule daysBetween_iff)
  show "daysBetween now due =
        due div 86400000 - now div 86400000 + (if now mod 86400000 < due mod 86400000 then 1 else 0)"
    by (rule daysBetween_calendar)
  show "daysBetween now due = due div 86400000 - now div 86400000" if "due mod 86400000 = 0"
    using that by (rule daysBetween_midnight)
  show "dueThisWeek env d \<longleftrightarrow>
        (\<exists>t. parseDate env d = Some t \<and>
           0 \<le> daysBetween (nowMs env) t \<and> daysBetween (nowMs env) t \<le> 7)"
    by (rule dueThisWeek_iff)
  show "dueThisWeek env d \<longleftrightarrow>
        (\<exists>t. parseDate env d = Some t \<and>
           - 86400000 < t - nowMs env \<and> t - nowMs env \<le> 7 * 86400000)"
    by (rule dueThisWeek_window)
  show "d \<in> set (filter (dueThisWeek env) (sort (map fst asg))) \<longleftrightarrow>
        d \<in> fst ` set asg \<and> dueThisWeek env d"
    by (rule week_member)
  show "assignmentPlanning env lm asg userName =
          (if filter (dueThisWeek env) (sort (map fst asg)) \<noteq> [] then
             Reply (addressMaybe env
               (join '' '' (''Here's what's due this week:'' #
                  map (weekLine env asg) (filter (dueThisWeek env) (sort (map fst asg))))) userName)
           else Reply (addressMaybe env
               (''Nothing due this week '' @ emDash @ '' a good time to get ahead.'') userName))"
    if "assignmentCountOf asg \<noteq> 0 \<and> includesStr lm ''week''"
    using that week_reply [of asg lm env userName] by blast
  show "weekLine env asg d =
          bullet @ '' '' @ d @ '': '' @ intToString env c @ '' assignment'' @ plural c @
          '' (in '' @ intToString env (daysBetween (nowMs env) due) @ '' days)''"
    if "parseDate env d = Some due \<and> map_of asg d = Some c"
    using that weekLine_days [of env d due asg c] by blast
  show "assignmentPlanning env lm asg userName =
          (if includesStr lm ''next'' \<or> includesStr lm ''upcoming'' then
             Reply (addressMaybe env
               (''Your next deadline is '' @ d @ '' '' @ emDash @ '' '' @ intToString env c @
                '' assignment'' @ plural c @ '' due in '' @
                intToString env (daysBetween (nowMs env) due) @ '' days.'') userName)
           else
             Reply (addressMaybe env
               (''You have '' @ intToString env (assignmentCountOf asg) @ '' pending assignment'' @
                plural (assignmentCountOf asg) @ ''. The nearest is on '' @ d @ '' ('' @
                intToString env c @ '' assignment'' @ plural c @ '', '' @
                intToString env (daysBetween (nowMs env) due) @ '' days).'') userName))"
    if "assignmentCountOf asg \<noteq> 0 \<and> \<not> includesStr lm ''week'' \<and> \<not> includesStr lm ''this week'' \<and>
        sort (map fst asg) = d # ds \<and> parseDate env d = Some due \<and> map_of asg d = Some c"
    using that nearest_reply [of asg lm d ds env due c userName] by blast
qed

lemma sample_week_reply:
  "reply (classifyAndRespond sampleEnv
       ((bareRequest ''what is due this week'') \<lparr>assignments := Some sampleAssignments\<rparr>))
     = ''Here's what's due this week: '' @
       bullet @ '' 2025-01-08: 1 assignment (in 0 days) '' @
       bullet @ '' 2025-01-10: 2 assignments (in 2 days) '' @
       bullet @ '' 2025-01-15: 3 assignments (in 7 days)''"
  by code_simp

lemma sample_assignment_facts:
  "parseDate sampleEnv ''2025-01-10'' = Some 1736467200000
   \<and> map_of sampleAssignments ''2025-01-10'' = Some 2
   \<and> assignmentCountOf sampleAssignments \<noteq> 0
   \<and> includesStr ''what is due this week'' ''week''
   \<and> \<not> includesStr ''next assignment'' ''week'' \<and> \<not> includesStr ''next assignment'' ''this week''
   \<and> includesStr ''next assignment'' ''next''
   \<and> sort (map fst [(''2025-01-10'', 2::int)]) = [''2025-01-10'']
   \<and> map_of [(''2025-01-10'', 2::int)] ''2025-01-10'' = Some 2
   \<and> assignmentCountOf [(''2025-01-10'', 2)] \<noteq> 0
   \<and> intToString sampleEnv 2 = ''2'' \<and> plural 2 = ''s''
   \<and> addressMaybe sampleEnv
        (''Your next deadline is 2025-01-10 '' @ emDash @ '' 2 assignments due in 2 days.'') ''there''
      = ''Your next deadline is 2025-01-10 '' @ emDash @ '' 2 assignments due in 2 days.''
   \<and> parseDate sampleEnv ''2025-01-09T10:00:00Z'' = Some 1736416800000
   \<and> parseDate sampleEnv ''someday'' = None"
  by code_simp

theorem days_until_due_witness:
  "(1736467200000::int) mod 86400000 = 0
   \<and> parseDate sampleEnv ''2025-01-10'' = Some 1736467200000
   \<and> daysBetween (nowMs sampleEnv) 1736467200000 = 1736467200000 div 86400000 - nowMs sampleEnv div 86400000
   \<and> nowMs sampleEnv = 1736326800000
   \<and> (1736467200000::int) div 86400000 - 1736326800000 div 86400000 = 2
   \<and> daysBetween (nowMs sampleEnv) 1736467200000 = 2
   \<and> daysBetween (nowMs sampleEnv) 1736416800000 = 2
   \<and> (1736416800000::int) div 86400000 - 1736326800000 div 86400000 = 1
   \<and> dueThisWeek sampleEnv ''2025-01-10''
   \<and> dueThisWeek sampleEnv ''2025-01-09T10:00:00Z''
   \<and> \<not> dueThisWeek sampleEnv ''someday''
   \<and> map_of sampleAssignments ''2025-01-10'' = Some 2
   \<and> weekLine sampleEnv sampleAssignments ''2025-01-10''
      = bullet @ '' '' @ ''2025-01-10'' @ '': '' @ intToString sampleEnv 2 @ '' assignment'' @
        plural 2 @ '' (in '' @ intToString sampleEnv 2 @ '' days)''
   \<and> assignmentCountOf sampleAssignments \<noteq> 0 \<and> includesStr ''what is due this week'' ''week''
   \<and> assignmentPlanning sampleEnv ''what is due this week'' sampleAssignments ''there''
      = (if filter (dueThisWeek sampleEnv) (sort (map fst sampleAssignments)) \<noteq> [] then
           Reply (addressMaybe sampleEnv
             (join '' '' (''Here's what's due this week:'' #
                map (weekLine sampleEnv sampleAssignments)
                  (filter (dueThisWeek sampleEnv) (sort (map fst sampleAssignments))))) ''there'')
         else Reply (addressMaybe sampleEnv
             (''Nothing due this week '' @ emDash @ '' a good time to get ahead.'') ''there''))
   \<and> reply (classifyAndRespond sampleEnv
       ((bareRequest ''what is due this week'') \<lparr>assignments := Some sampleAssignments\<rparr>))
     = ''Here's what's due this week: '' @
       bullet @ '' 2025-01-08: 1 assignment (in 0 days) '' @
       bullet @ '' 2025-01-10: 2 assignments (in 2 days) '' @
       bullet @ '' 2025-01-15: 3 assignments (in 7 days)''
   \<and> \<not> includesStr ''next assignment'' ''week'' \<and> includesStr ''next assignment'' ''next''
   \<and> assignmentPlanning sampleEnv ''next assignment'' [(''2025-01-10'', 2)] ''there''
      = Reply (''Your next deadline is 2025-01-10 '' @ emDash @ '' 2 assignments due in 2 days.'')"
proof -
  have m: "(1736467200000::int) mod 86400000 = 0" by simp
  have n: "nowMs sampleEnv = 1736326800000" by (simp add: sampleEnv_def)
  have a: "(1736467200000::int) div 86400000 - 1736326800000 div 86400000 = 2" by simp
  have a1: "(1736416800000::int) div 86400000 - 1736326800000 div 86400000 = 1" by simp
  note f = sample_assignment_facts
  note inst = days_until_due [of "nowMs sampleEnv" 1736467200000 2 sampleEnv "''2025-01-10''"
      sampleAssignments "''what is due this week''" "''there''" 2 "[]"]
  have d: "daysBetween (nowMs sampleEnv) 1736467200000
             = 1736467200000 div 86400000 - nowMs sampleEnv div 86400000"
    using inst m by blast
  then have d2: "daysBetween (nowMs sampleEnv) 1736467200000 = 2" using n a by simp
  have "\<exists>t. parseDate sampleEnv ''2025-01-10'' = Some t \<and>
          0 \<le> daysBetween (nowMs sampleEnv) t \<and> daysBetween (nowMs sampleEnv) t \<le> 7"
    using f d2 by auto
  then have w: "dueThisWeek sampleEnv ''2025-01-10''" using inst by blast
  note inst3 = days_until_due [of "nowMs sampleEnv" 1736416800000 2 sampleEnv "''2025-01-09T10:00:00Z''"
      sampleAssignments "''what is due this week''" "''there''" 1 "[]"]
  have "(2 - 1) * 86400000 < 1736416800000 - nowMs sampleEnv \<and>
        1736416800000 - nowMs sampleEnv \<le> 2 * 86400000"
    using n by simp
  then have d3: "daysBetween (nowMs sampleEnv) 1736416800000 = 2" using inst3 by blast
  have "\<exists>t. parseDate sampleEnv ''2025-01-09T10:00:00Z'' = Some t \<and>
          - 86400000 < t - nowMs sampleEnv \<and> t - nowMs sampleEnv \<le> 7 * 86400000"
    using f n by auto
  then have w3: "dueThisWeek sampleEnv ''2025-01-09T10:00:00Z''" using inst3 by blast
  note inst4 = days_until_due [of "nowMs sampleEnv" 0 0 sampleEnv "''someday''"
      sampleAssignments "''what is due this week''" "''there''" 0 "[]"]
  have "\<not> (\<exists>t. parseDate sampleEnv ''someday'' = Some t \<and>
          0 \<le> daysBetween (nowMs sampleEnv) t \<and> daysBetween (nowMs sampleEnv) t \<le> 7)"
    using f by simp
  then have w4: "\<not> dueThisWeek sampleEnv ''someday''" using inst4 by blast
  have "weekLine sampleEnv sampleAssignments ''2025-01-10''
      = bullet @ '' '' @ ''2025-01-10'' @ '': '' @ intToString sampleEnv 2 @ '' assignment'' @
        plural 2 @ '' (in '' @ intToString sampleEnv (daysBetween (nowMs sampleEnv) 1736467200000) @
        '' days)''"
    using inst f by blast
  then have wl: "weekLine sampleEnv sampleAssignments ''2025-01-10''
      = bullet @ '' '' @ ''2025-01-10'' @ '': '' @ intToString sampleEnv 2 @ '' assignment'' @
        plural 2 @ '' (in '' @ intToString sampleEnv 2 @ '' days)''"
    using d2 by simp
  have wr: "assignmentPlanning sampleEnv ''what is due this week'' sampleAssignments ''there''
      = (if filter (dueThisWeek sampleEnv) (sort (map fst sampleAssignments)) \<noteq> [] then
           Reply (addressMaybe sampleEnv
             (join '' '' (''Here's what's due this week:'' #
                map (weekLine sampleEnv sampleAssignments)
                  (filter (dueThisWeek sampleEnv) (sort (map fst sampleAssignments))))) ''there'')
         else Reply (addressMaybe sampleEnv
             (''Nothing due this week '' @ emDash @ '' a good time to get ahead.'') ''there''))"
    using inst f by blast
  note inst2 = days_until_due [of "nowMs sampleEnv" 1736467200000 2 sampleEnv "''2025-01-10''"
      "[(''2025-01-10'', 2)]" "''next assignment''" "''there''" 2 "[]"]
  have "assignmentPlanning sampleEnv ''next assignment'' [(''2025-01-10'', 2)] ''there''
      = (if includesStr ''next assignment'' ''next'' \<or> includesStr ''next assignment'' ''upcoming'' then
           Reply (addressMaybe sampleEnv
             (''Your next deadline is '' @ ''2025-01-10'' @ '' '' @ emDash @ '' '' @
              intToString sampleEnv 2 @ '' assignment'' @ plural 2 @ '' due in '' @
              intToString sampleEnv (daysBetween (nowMs sampleEnv) 1736467200000) @ '' days.'')
             ''there'')
         else
           Reply (addressMaybe sampleEnv
             (''You have '' @ intToString sampleEnv (assignmentCountOf [(''2025-01-10'', 2)]) @
              '' pending assignment'' @ plural (assignmentCountOf [(''2025-01-10'', 2)]) @
              ''. The nearest is on '' @ ''2025-01-10'' @ '' ('' @ intToString sampleEnv 2 @
              '' assignment'' @ plural 2 @ '', '' @
              intToString sampleEnv (daysBetween (nowMs sampleEnv) 1736467200000) @ '' days).'')
             ''there''))"
    using inst2 f by blast
  then have nx: "assignmentPlanning sampleEnv ''next assignment'' [(''2025-01-10'', 2)] ''there''
      = Reply (''Your next deadline is 2025-01-10 '' @ emDash @ '' 2 assignments due in 2 days.'')"
    using f d2 by simp
  show ?thesis using m f d n a a1 d2 d3 w w3 w4 wl wr sample_week_reply nx by blast
qed

section \<open>Semester scores and the grade trend\<close>

lemma scoreOf_sgpa: "sgpa sem = Some x \<Longrightarrow> x \<noteq> 0 \<Longrightarrow> scoreOf sem = Some x"
  by (simp add: scoreOf_def orNum_def)

lemma scoreOf_gpa: "sgpa sem = None \<Longrightarrow> gpa sem = Some x \<Longrightarrow> x \<noteq> 0 \<Longrightarrow> scoreOf sem = Some x"
  by (simp add: scoreOf_def orNum_def)

lemma scoreOf_score: "sgpa sem = None \<Longrightarrow> gpa sem = None \<Longrightarrow> scoreOf sem = score sem"
  by (simp add: scoreOf_def orNum_def)

lemma scoreOf_zero_sgpa: "sgpa sem = Some 0 \<Longrightarrow> scoreOf sem = orNum (gpa sem) (score sem)"
  by (simp add: scoreOf_def orNum_def split: option.splits)

text \<open>
  Claim C7 is right and the code misses it: \<^verbatim>\<open>sem.sgpa || sem.gpa || sem.score\<close> takes the
  first truthy value, not the first present one. A record \<^verbatim>\<open>{sgpa: 0, gpa: 3.5}\<close> resolves to
  3.5, a record \<^verbatim>\<open>{sgpa: 0}\<close> resolves to \<^verbatim>\<open>undefined\<close>, and the query ``what is my gpa'' on
  \<^verbatim>\<open>cgpa: [{sgpa: 0}]\<close> throws on \<^verbatim>\<open>toFixed\<close> and is answered with the intent \<^verbatim>\<open>ERROR\<close>.
\<close>

theorem zero_sgpa_is_skipped:
  "scoreOf \<lparr>sgpa = Some 0, gpa = Some 3.5, score = None, semester = None, semName = None\<rparr> = Some 3.5
   \<and> scoreOf (sgpaOnly 0) = None
   \<and> classifyAndRespond sampleEnv ((bareRequest ''what is my gpa'') \<lparr>cgpa := Some [sgpaOnly 0]\<rparr>)
      = \<lparr>status = 500, intentLabel = ERROR,
         reply = ''Something went wrong. Could you try that again?'',
         metadata = None, errorDetail = None\<rparr>"
  by code_simp

text \<open>
  The five bands, each by the condition on the difference of the doubles that selects it.
  The bound is the double 0.3, which is below 3/10.
\<close>

lemma trend_bound: "0 < roundDouble 0.3 \<and> roundDouble 0.3 < 0.3"
  by code_simp

lemma trendOf_bands:
  "(trendOf d = chartUp @ '' strong improvement'' \<longleftrightarrow> roundDouble 0.3 < d)
   \<and> (trendOf d = chartUp @ '' slight improvement'' \<longleftrightarrow> 0 < d \<and> d \<le> roundDouble 0.3)
   \<and> (trendOf d = chartDown @ '' significant drop'' \<longleftrightarrow> d < - roundDouble 0.3)
   \<and> (trendOf d = chartDown @ '' slight decline'' \<longleftrightarrow> - roundDouble 0.3 \<le> d \<and> d < 0)
   \<and> (trendOf d = arrowRight @ '' stable'' \<longleftrightarrow> d = 0)"
proof -
  define b where "b = roundDouble 0.3"
  have b: "0 < b" using trend_bound by (simp add: b_def)
  have "(trendOf d = chartUp @ '' strong improvement'' \<longleftrightarrow> b < d)
   \<and> (trendOf d = chartUp @ '' slight improvement'' \<longleftrightarrow> 0 < d \<and> d \<le> b)
   \<and> (trendOf d = chartDown @ '' significant drop'' \<longleftrightarrow> d < - b)
   \<and> (trendOf d = chartDown @ '' slight decline'' \<longleftrightarrow> - b \<le> d \<and> d < 0)
   \<and> (trendOf d = arrowRight @ '' stable'' \<longleftrightarrow> d = 0)"
    using b unfolding trendOf_def b_def [symmetric]
    by (auto simp add: chartUp_def chartDown_def arrowRight_def)
  then show ?thesis by (simp add: b_def)
qed

text \<open>
  Scores written as 8.0 and 8.3 differ by 3/10 as decimals; as doubles their difference is
  above the bound, and the reply says strong improvement.
\<close>

lemma trend_on_written_scores:
  "reply (classifyAndRespond sampleEnv
       ((bareRequest ''show my progress'') \<lparr>cgpa := Some [sgpaOnly 8.0, sgpaOnly 8.3]\<rparr>))
     = ''Over 2 semesters, your grades have shown '' @ chartUp @ '' strong improvement. Started at 8.00 '' @
       arrow @ '' now at 8.30 (+0.30). Semester progression: 8.00 '' @ arrow @ '' 8.30''"
  by code_simp

text \<open>The reply of a trend query on several semesters whose scores all resolve.\<close>

lemma sequenceE_resolved:
  "\<forall>x \<in> set xs. \<exists>v. f x = Inr v \<Longrightarrow> \<exists>vs. sequenceE (map f xs) = Inr vs"
  by (induction xs) auto

lemma progression_resolved:
  assumes "\<forall>sem \<in> set sems. scoreOf sem \<noteq> None"
  shows "\<exists>p. progressionSentence env sems = Inr p"
proof -
  have "\<forall>sem \<in> set sems. \<exists>v. optToFixed env (scoreOf sem) 2 = Inr v"
    using assms by (auto simp: optToFixed_def)
  then obtain vs where "sequenceE (map (\<lambda>sem. optToFixed env (scoreOf sem) 2) sems) = Inr vs"
    using sequenceE_resolved [of sems "\<lambda>sem. optToFixed env (scoreOf sem) 2"] by blast
  then show ?thesis by (simp add: progressionSentence_def)
qed

lemma trendReply_resolved:
  assumes "1 < length sems" "\<forall>sem \<in> set sems. scoreOf sem \<noteq> None"
    "scoreOf (sems ! 0) = Some first" "scoreOf (sems ! (length sems - 1)) = Some latest"
  shows "\<exists>rest. trendReply env sems userName =
           Inr (addressMaybe env
             (join '' '' ([trendSentence env (length sems) (differenceOf first latest),
                           startedSentence env first latest] @ rest)) userName)"
proof (cases "length sems \<le> 4")
  case True
  have ne: "sems \<noteq> []" using assms(1) by auto
  obtain p where "progressionSentence env sems = Inr p"
    using progression_resolved [OF assms(2)] by blast
  then have "trendReply env sems userName =
           Inr (addressMaybe env
             (join '' '' ([trendSentence env (length sems) (differenceOf first latest),
                           startedSentence env first latest] @ [p])) userName)"
    using assms True ne by (simp add: trendReply_def)
  then show ?thesis by blast
next
  case False
  have ne: "sems \<noteq> []" using assms(1) by auto
  with False have "trendReply env sems userName =
           Inr (addressMaybe env
             (join '' '' ([trendSentence env (length sems) (differenceOf first latest),
                           startedSentence env first latest] @ [])) userName)"
    using assms by (simp add: trendReply_def)
  then show ?thesis by blast
qed

lemma single_semester_trend:
  assumes "scoreOf sem = Some s"
  shows "trendReply env [sem] userName =
           Inr (addressMaybe env
             (''Your current SGPA is '' @ toFixed env s 2 @ ''. Add more semesters to see trends.'')
             userName)"
  using assms by (simp add: trendReply_def singleSemesterTrend_def)

lemma progress_example:
  "reply (classifyAndRespond sampleEnv
       ((bareRequest ''show my progress'') \<lparr>cgpa := Some [sgpaOnly 7.0, sgpaOnly 7.8]\<rparr>))
     = ''Over 2 semesters, your grades have shown '' @ chartUp @ '' strong improvement. Started at 7.00 '' @
       arrow @ '' now at 7.80 (+0.80). Semester progression: 7.00 '' @ arrow @ '' 7.80''"
  by code_simp

text \<open>
  Claim C3 is right and the code misses it on a sequence with a score of 0: for
  \<^verbatim>\<open>cgpa: [{sgpa: 0}, {sgpa: 7.5}]\<close> and the message ``show my progress'' the difference is
  7.5, a strong improvement, but the first score resolves to \<^verbatim>\<open>undefined\<close>, \<^verbatim>\<open>toFixed\<close>
  throws, and the request is answered with the intent \<^verbatim>\<open>ERROR\<close>. The classification
  itself is the one the claim gives.
\<close>

theorem trend_query_fails_on_zero_score:
  "classify (toLowerCase ''show my progress'') ''show my progress'' = ACADEMIC_INSIGHTS
   \<and> isTrendQuery ''show my progress'' \<and> \<not> isShowAll ''show my progress''
   \<and> trendOf (7.5 - 0) = chartUp @ '' strong improvement''
   \<and> trendReply sampleEnv [sgpaOnly 0, sgpaOnly 7.5] ''there'' = Inl TypeError
   \<and> classifyAndRespond sampleEnv
        ((bareRequest ''show my progress'') \<lparr>cgpa := Some [sgpaOnly 0, sgpaOnly 7.5]\<rparr>)
      = \<lparr>status = 500, intentLabel = ERROR,
         reply = ''Something went wrong. Could you try that again?'',
         metadata = None, errorDetail = None\<rparr>"
  by code_simp

section \<open>The response envelope and missing data\<close>

lemma reply_has_metadata:
  "runBranch env (jsonBody req) (classify (toLowerCase (message (jsonBody req))) (message (jsonBody req)))
     = Inr (Reply r) \<Longrightarrow>
   classifyAndRespond env req =
     \<lparr>status = 200,
      intentLabel = classify (toLowerCase (message (jsonBody req))) (message (jsonBody req)),
      reply = r, metadata = Some (metadataOf env (jsonBody req)), errorDetail = None\<rparr>"
  by (simp add: classifyAndRespond_def Let_def)

lemma exception_is_answered:
  "runBranch env (jsonBody req) (classify (toLowerCase (message (jsonBody req))) (message (jsonBody req)))
     = Inl e \<Longrightarrow>
   classifyAndRespond env req =
     \<lparr>status = 500, intentLabel = ERROR, reply = errorReply, metadata = None,
      errorDetail = (if DEBUG env then Some (errorMessage env e) else None)\<rparr>"
  by (simp add: classifyAndRespond_def Let_def)

lemma error_detail_only_in_debug: "\<not> DEBUG env \<Longrightarrow> errorDetail (classifyAndRespond env req) = None"
  by (simp add: classifyAndRespond_def Let_def split: sum.splits outcome.splits)

text \<open>JSON parsing leaves the message as it is.\<close>

lemma jsonBody_message: "message (jsonBody req) = message req"
  by (simp add: jsonBody_def)

text \<open>
  Claim C5 is right about the envelope and the code misses it on three early returns: the
  no-data replies of the attendance, assignment and calendar branches are sent with
  \<^verbatim>\<open>res.json({ intent, reply })\<close>, without the metadata block that every other reply carries.
  For \<^verbatim>\<open>attendance: {totalHeld: 0, totalAttended: 0, percentage: 0}\<close> and the message
  ``attendance'' the response has intent and reply and no metadata.
\<close>

theorem early_return_without_metadata:
  "classifyAndRespond sampleEnv
     ((bareRequest ''attendance'')
        \<lparr>attendance := Some \<lparr>totalHeld = Some 0, totalAttended = Some 0, percentage = Some 0,
                              subjects = None\<rparr>\<rparr>)
   = \<lparr>status = 200, intentLabel = ATTENDANCE_INSIGHTS,
      reply = ''No attendance records yet. Once classes start, I can help you track it.'',
      metadata = None, errorDetail = None\<rparr>"
  by code_simp

lemma other_early_returns:
  "metadata (classifyAndRespond sampleEnv (bareRequest ''any homework'')) = None
   \<and> metadata (classifyAndRespond sampleEnv (bareRequest ''my calendar'')) = None
   \<and> metadata (classifyAndRespond sampleEnv (bareRequest ''my grades'')) \<noteq> None"
  by code_simp

text \<open>The data sets that are empty or zero do short-circuit to their no-data reply.\<close>

lemma no_data_short_circuits:
  "(totalHeld att = Some 0 \<longrightarrow>
      attendanceInsights env lm att userName = Early (addressMaybe env noAttendanceReply userName))
   \<and> academicInsights env lm [] userName = Inr (Reply (addressMaybe env noAcademicReply userName))
   \<and> (assignmentCountOf asg = 0 \<longrightarrow>
      assignmentPlanning env lm asg userName = Early (addressMaybe env noAssignmentsReply userName))
   \<and> calendarManagement env lm [] userName = Early (addressMaybe env noCalendarReply userName)"
  by (simp add: attendanceInsights_def academicInsights_def assignmentPlanning_def
      calendarManagement_def)

text \<open>
  Claim C6 is right and the code misses it for a bundle without the attendance field: the
  default \<^verbatim>\<open>attendance = {}\<close> is truthy and its \<^verbatim>\<open>totalHeld\<close> is \<^verbatim>\<open>undefined\<close>, not 0, so the
  guard \<^verbatim>\<open>!attendance || attendance.totalHeld === 0\<close> does not hold and the overall reply
  is built from \<^verbatim>\<open>undefined\<close> values.
\<close>

theorem attendance_query_without_attendance_field:
  "classifyAndRespond sampleEnv (bareRequest ''attendance'')
   = \<lparr>status = 200, intentLabel = ATTENDANCE_INSIGHTS,
      reply = ''Your attendance is at undefined% (undefined out of undefined classes). '' @
              ''You're maintaining good attendance '' @ emDash @ '' that's solid.'',
      metadata = Some \<lparr>timestamp = ''2025-01-08T09:00:00.000Z'', metaUserName = ''there'',
        dataUsed = \<lparr>hasExpenses = False, hasAttendance = False, hasTimetable = False,
                    hasAssignments = False, hasCalendar = False, hasCgpa = False\<rparr>\<rparr>,
      errorDetail = None\<rparr>"
  by code_simp

section \<open>Writes to the request body\<close>

lemma insort_object:
  "insort_key markToString (MarkObject a) (map MarkObject objs) = MarkObject a # map MarkObject objs"
  by (cases objs) (simp_all add: markToString_def)

lemma sort_leaves_objects: "sortInPlace (map MarkObject objs) = map MarkObject objs"
  unfolding sortInPlace_def by (induction objs) (simp_all add: insort_object)

text \<open>
  Claim C9 is right and the first handler breaks it: its calendar branch calls
  \<^verbatim>\<open>calendarMarks.sort()\<close> on the array of the request body, where the hardened handler
  filters into a new array before sorting (\<^verbatim>\<open>getFutureDates\<close>). For the message ``calendar''
  and \<^verbatim>\<open>calendarMarks: ["2025-03-01", "2025-01-01"]\<close> the body holds the marks in the other
  order once the handler has answered.
\<close>

theorem calendar_sort_mutates_request:
  "classifyV1 (toLowerCase ''calendar'') = CALENDAR_MANAGEMENT
   \<and> calendarMarks (bodyAfterV1
        ((bareRequest ''calendar'')
           \<lparr>calendarMarks := Some [DateString ''2025-03-01'', DateString ''2025-01-01'']\<rparr>))
      = Some [DateString ''2025-01-01'', DateString ''2025-03-01'']
   \<and> [DateString ''2025-01-01'', DateString ''2025-03-01'']
      \<noteq> [DateString ''2025-03-01'', DateString ''2025-01-01'']"
  by code_simp

end
